theory Spec2Isabelle
  imports Complex_Main "HOL-Library.Sublist" "HOL-Library.AList"
begin

section \<open>Python values used by the recommendation engines\<close>

text \<open>
  The repository holds two variants of the recommendation engine:
  \<^item> \<^verbatim>\<open>SimpleRecipeRecommender\<close> in \<^verbatim>\<open>app_working.py\<close> (direct-match-gated scoring);
  \<^item> \<^verbatim>\<open>RecipeRecommendationEngine\<close> in \<^verbatim>\<open>app.py\<close> (ML-blended scoring).
  Both are embedded below. Definitions of the first carry the suffix \<open>_simple\<close>, those of
  the second the suffix \<open>_engine\<close>, where the two classes use the same method name.

  Conventions of the embedding:
  \<^item> Python \<^verbatim>\<open>float\<close> scores are idealised as exact rationals (\<open>rat\<close>); IEEE rounding of
    the intermediate products is not modelled.
  \<^item> Strings are byte lists; \<^verbatim>\<open>str.lower\<close> and \<^verbatim>\<open>str.strip\<close> are modelled on the ASCII
    range (other bytes are left unchanged and are not whitespace).
  \<^item> A Python \<^verbatim>\<open>set\<close> of strings is a duplicate-free list. The iteration order of a Python
    set is an implementation detail; the model fixes one order, which is a function of the
    list the set was built from.
  \<^item> A Python \<^verbatim>\<open>dict\<close> is an association list in insertion order.
  \<^item> Exceptions are values of \<open>py_error\<close>, on the left of a sum.
\<close>

datatype py_error = AttributeError | KeyError | ZeroDivisionError | ValueError

definition lower_char :: "char \<Rightarrow> char" where
  "lower_char c =
     (let n = (of_char c :: nat) in if 65 \<le> n \<and> n \<le> 90 then char_of (n + 32) else c)"

definition lower :: "string \<Rightarrow> string" where
  "lower s = map lower_char s"

definition isspace :: "char \<Rightarrow> bool" where
  "isspace c = (let n = (of_char c :: nat) in (9 \<le> n \<and> n \<le> 13) \<or> (28 \<le> n \<and> n \<le> 32))"

definition strip :: "string \<Rightarrow> string" where
  "strip s = rev (dropWhile isspace (rev (dropWhile isspace s)))"

text \<open>\<^verbatim>\<open>sep.join(xs)\<close>\<close>

fun join :: "string \<Rightarrow> string list \<Rightarrow> string" where
  "join sep [] = []"
| "join sep [x] = x"
| "join sep (x # y # ys) = x @ sep @ join sep (y # ys)"

text \<open>\<^verbatim>\<open>set(xs)\<close>, \<^verbatim>\<open>a.intersection(b)\<close>, \<^verbatim>\<open>a - b\<close> and \<^verbatim>\<open>len\<close> (which is \<open>length\<close>).\<close>

definition py_set :: "'a list \<Rightarrow> 'a list" where
  "py_set xs = remdups xs"

definition intersection :: "'a list \<Rightarrow> 'a list \<Rightarrow> 'a list" where
  "intersection a b = filter (\<lambda>x. x \<in> set b) a"

definition difference :: "'a list \<Rightarrow> 'a list \<Rightarrow> 'a list" where
  "difference a b = filter (\<lambda>x. x \<notin> set b) a"

text \<open>\<^verbatim>\<open>xs[:n]\<close>: a negative bound counts from the end.\<close>

definition slice_to :: "int \<Rightarrow> 'a list \<Rightarrow> 'a list" where
  "slice_to n xs = (if 0 \<le> n then take (nat n) xs else take (length xs - nat (- n)) xs)"

text \<open>\<^verbatim>\<open>d.get(k, default)\<close> on a dict.\<close>

definition dict_get :: "('k \<times> 'v) list \<Rightarrow> 'k \<Rightarrow> 'v \<Rightarrow> 'v" where
  "dict_get d k dflt = (case map_of d k of None \<Rightarrow> dflt | Some v \<Rightarrow> v)"

text \<open>\<^verbatim>\<open>a / b\<close> on two lengths: true division, raising on a zero divisor.\<close>

definition py_div :: "nat \<Rightarrow> nat \<Rightarrow> py_error + rat" where
  "py_div a b = (if b = 0 then Inl ZeroDivisionError else Inr (rat_of_nat a / rat_of_nat b))"

text \<open>\<^verbatim>\<open>round(x, 1)\<close>: one decimal, ties to even.\<close>

definition round1 :: "rat \<Rightarrow> rat" where
  "round1 x =
     (let y = x * 10; f = \<lfloor>y\<rfloor>; d = y - rat_of_int f
      in rat_of_int (if d < 1 / 2 then f else if 1 / 2 < d then f + 1
                     else if even f then f else f + 1) / 10)"

text \<open>
  \<^verbatim>\<open>xs.sort(key=k, reverse=True)\<close>: Python's sort is stable, and \<^verbatim>\<open>reverse=True\<close> keeps
  the original order of elements with equal keys. \<open>sort_key\<close> is a stable insertion sort.
\<close>

definition sort_reverse :: "('a \<Rightarrow> rat) \<Rightarrow> 'a list \<Rightarrow> 'a list" where
  "sort_reverse k xs = sort_key (\<lambda>x. - k x) xs"

text \<open>Truthiness of an optional string argument (\<^verbatim>\<open>None\<close> and \<^verbatim>\<open>''\<close> are false).\<close>

definition truthy_str :: "string option \<Rightarrow> bool" where
  "truthy_str v = (case v of None \<Rightarrow> False | Some s \<Rightarrow> s \<noteq> [])"

section \<open>Data model\<close>

text \<open>
  A recipe is a JSON object; every key may be absent. \<^verbatim>\<open>dietary_info\<close> comes in two shapes:
  a list of tags or a dict of boolean flags.
\<close>

datatype dietary = Tags "string list" | Flags "(string \<times> bool) list"

record recipe =
  recipe_id :: "int option"
  name :: "string option"
  ingredients :: "string list option"
  cuisine :: "string option"
  difficulty :: "string option"
  cooking_time :: "int option"
  dietary_info :: "dietary option"

text \<open>The arguments of \<^verbatim>\<open>get_recommendations\<close>.\<close>

record query =
  ingredients_arg :: "string list"
  dietary_restrictions :: "string list"
  max_cooking_time :: "int option"
  difficulty_arg :: "string option"
  cuisine_preference :: "string option"
  limit :: int

text \<open>A result: the copy of the recipe with the four derived keys.\<close>

record scored =
  recipe :: recipe
  match_score :: rat
  ingredient_match_percentage :: rat
  missing_ingredients :: "string list"
  substitution_suggestions :: "(string \<times> string list) list"

text \<open>\<^verbatim>\<open>recipe.get('ingredients', [])\<close> and \<^verbatim>\<open>recipe.get('cooking_time', 0)\<close>.\<close>

definition get_ingredients :: "recipe \<Rightarrow> string list" where
  "get_ingredients r = (case ingredients r of None \<Rightarrow> [] | Some xs \<Rightarrow> xs)"

definition get_cooking_time :: "recipe \<Rightarrow> int" where
  "get_cooking_time r = (case cooking_time r of None \<Rightarrow> 0 | Some t \<Rightarrow> t)"

text \<open>\<^verbatim>\<open>max_cooking_time and recipe.get('cooking_time', 0) > max_cooking_time\<close>, in both engines.\<close>

definition exceeds_cooking_time :: "int option \<Rightarrow> recipe \<Rightarrow> bool" where
  "exceeds_cooking_time mct r =
     (case mct of None \<Rightarrow> False | Some m \<Rightarrow> m \<noteq> 0 \<and> get_cooking_time r > m)"

section \<open>SimpleRecipeRecommender (app_working.py)\<close>

subsection \<open>\<^verbatim>\<open>_matches_dietary_restrictions\<close>\<close>

text \<open>
  \<^verbatim>\<open>recipe_dietary.get(k, False)\<close>: a dict answers; a list has no \<^verbatim>\<open>get\<close> and raises
  \<^verbatim>\<open>AttributeError\<close>. The call is only evaluated when the name test before \<^verbatim>\<open>and\<close> holds.
\<close>

definition flag_unset :: "dietary \<Rightarrow> string \<Rightarrow> py_error + bool" where
  "flag_unset d k =
     (case d of Flags fs \<Rightarrow> Inr (\<not> dict_get fs k False) | Tags ts \<Rightarrow> Inl AttributeError)"

definition restriction_fails :: "string \<Rightarrow> string \<Rightarrow> string \<Rightarrow> dietary \<Rightarrow> py_error + bool" where
  "restriction_fails restriction nm k d = (if restriction = nm then flag_unset d k else Inr False)"

fun matches_dietary_restrictions :: "dietary \<Rightarrow> string list \<Rightarrow> py_error + bool" where
  "matches_dietary_restrictions recipe_dietary [] = Inr True"
| "matches_dietary_restrictions recipe_dietary (r # restrictions) =
     (let restriction = lower r in
      case restriction_fails restriction ''vegetarian'' ''vegetarian'' recipe_dietary of
        Inl e \<Rightarrow> Inl e
      | Inr True \<Rightarrow> Inr False
      | Inr False \<Rightarrow>
     (case restriction_fails restriction ''vegan'' ''vegan'' recipe_dietary of
        Inl e \<Rightarrow> Inl e
      | Inr True \<Rightarrow> Inr False
      | Inr False \<Rightarrow>
     (case restriction_fails restriction ''gluten-free'' ''gluten_free'' recipe_dietary of
        Inl e \<Rightarrow> Inl e
      | Inr True \<Rightarrow> Inr False
      | Inr False \<Rightarrow>
     (case restriction_fails restriction ''dairy-free'' ''dairy_free'' recipe_dietary of
        Inl e \<Rightarrow> Inl e
      | Inr True \<Rightarrow> Inr False
      | Inr False \<Rightarrow> matches_dietary_restrictions recipe_dietary restrictions))))"

subsection \<open>\<^verbatim>\<open>_get_substitutions\<close>\<close>

definition substitutions_simple :: "(string \<times> string list) list" where
  "substitutions_simple =
     [(''butter'', [''olive oil'', ''coconut oil'']),
      (''milk'', [''almond milk'', ''soy milk'']),
      (''eggs'', [''flax eggs'', ''applesauce'']),
      (''flour'', [''almond flour'', ''coconut flour'']),
      (''sugar'', [''honey'', ''maple syrup'']),
      (''cream'', [''coconut cream'', ''cashew cream'']),
      (''cheese'', [''nutritional yeast'', ''cashew cheese'']),
      (''chicken'', [''tofu'', ''tempeh'']),
      (''beef'', [''mushrooms'', ''lentils'']),
      (''oil'', [''butter'', ''ghee'']),
      (''onion'', [''shallots'', ''garlic'']),
      (''garlic'', [''garlic powder'', ''onion powder''])]"

text \<open>The inner loop over the table: the first key that is a substring of the ingredient.\<close>

fun first_key_in :: "(string \<times> string list) list \<Rightarrow> string \<Rightarrow> string list option" where
  "first_key_in [] ingredient_lower = None"
| "first_key_in ((key, subs) # table) ingredient_lower =
     (if sublist key ingredient_lower then Some subs else first_key_in table ingredient_lower)"

definition get_substitutions :: "string list \<Rightarrow> (string \<times> string list) list" where
  "get_substitutions missing =
     fold (\<lambda>ingredient suggestions.
             case first_key_in substitutions_simple (lower ingredient) of
               None \<Rightarrow> suggestions
             | Some subs \<Rightarrow> AList.update ingredient (take 2 subs) suggestions)
          (take 3 missing) []"

subsection \<open>\<^verbatim>\<open>get_recommendations\<close>\<close>

definition normalized_set :: "string list \<Rightarrow> string list" where
  "normalized_set ings = py_set (map (\<lambda>ing. strip (lower ing)) ings)"

text \<open>The hard filters on difficulty and cuisine: true when the recipe is to be skipped.\<close>

definition differs_lower :: "string option \<Rightarrow> string option \<Rightarrow> bool" where
  "differs_lower wanted field =
     (case wanted of None \<Rightarrow> False
      | Some w \<Rightarrow> w \<noteq> [] \<and> lower (case field of None \<Rightarrow> [] | Some s \<Rightarrow> s) \<noteq> lower w)"

text \<open>
  The body of the loop, inside the inner \<^verbatim>\<open>try\<close>, in two parts. First the filters:
  \<open>Inl e\<close> when the dietary check raised \<open>e\<close>, \<open>Inr True\<close> when the recipe is skipped by
  a \<^verbatim>\<open>continue\<close>, \<open>Inr False\<close> when it goes on to scoring.
\<close>

definition filtered_out_simple :: "query \<Rightarrow> recipe \<Rightarrow> py_error + bool" where
  "filtered_out_simple q r =
     (case (if dietary_restrictions q \<noteq> []
            then matches_dietary_restrictions
                   (case dietary_info r of None \<Rightarrow> Flags [] | Some d \<Rightarrow> d)
                   (dietary_restrictions q)
            else Inr True) of
        Inl e \<Rightarrow> Inl e
      | Inr ok \<Rightarrow>
          Inr (\<not> ok
               \<or> exceeds_cooking_time (max_cooking_time q) r
               \<or> differs_lower (difficulty_arg q) (difficulty r)
               \<or> differs_lower (cuisine_preference q) (cuisine r)))"

text \<open>The enriched copy of the recipe that is appended.\<close>

definition recipe_copy_simple :: "recipe \<Rightarrow> string list \<Rightarrow> string list \<Rightarrow> rat \<Rightarrow> rat \<Rightarrow> scored" where
  "recipe_copy_simple r recipe_ingredients query_ingredients final_score ingredient_match_score =
     \<lparr> recipe = r,
       match_score = round1 (final_score * 100),
       ingredient_match_percentage = round1 (ingredient_match_score * 100),
       missing_ingredients = difference recipe_ingredients query_ingredients,
       substitution_suggestions =
         get_substitutions (take 3 (difference recipe_ingredients query_ingredients)) \<rparr>"

text \<open>
  Then the scoring: \<open>Inr None\<close> when nothing is appended, \<open>Inr (Some s)\<close> when \<open>s\<close> is.
\<close>

definition score_simple :: "string list \<Rightarrow> recipe \<Rightarrow> py_error + scored option" where
  "score_simple query_ingredients r =
     (let recipe_ingredients = normalized_set (get_ingredients r);
          direct_matches = length (intersection recipe_ingredients query_ingredients);
          total_recipe_ingredients = length recipe_ingredients
      in if total_recipe_ingredients = 0 then Inr None
         else
           (case py_div direct_matches total_recipe_ingredients of
              Inl e \<Rightarrow> Inl e
            | Inr ingredient_match_score \<Rightarrow>
                (case py_div (length (intersection query_ingredients recipe_ingredients))
                             (length query_ingredients) of
                   Inl e \<Rightarrow> Inl e
                 | Inr coverage_score \<Rightarrow>
                     (let final_score =
                            ingredient_match_score * (6 / 10) + coverage_score * (4 / 10)
                      in if direct_matches > 0
                         then Inr (Some (recipe_copy_simple r recipe_ingredients query_ingredients
                                           final_score ingredient_match_score))
                         else Inr None))))"

definition score_recipe_simple :: "string list \<Rightarrow> query \<Rightarrow> recipe \<Rightarrow> py_error + scored option" where
  "score_recipe_simple query_ingredients q r =
     (case filtered_out_simple q r of
        Inl e \<Rightarrow> Inl e
      | Inr skip \<Rightarrow> if skip then Inr None else score_simple query_ingredients r)"

text \<open>
  The loop over \<^verbatim>\<open>self.recipes\<close>. An exception of the body is caught by the inner
  \<^verbatim>\<open>except\<close>, which logs \<^verbatim>\<open>recipe.get('name', 'Unknown')\<close> and continues.
\<close>

fun recommendations_simple :: "string list \<Rightarrow> query \<Rightarrow> recipe list \<Rightarrow> scored list" where
  "recommendations_simple query_ingredients q [] = []"
| "recommendations_simple query_ingredients q (r # recipes) =
     (case score_recipe_simple query_ingredients q r of
        Inl e \<Rightarrow> recommendations_simple query_ingredients q recipes
      | Inr None \<Rightarrow> recommendations_simple query_ingredients q recipes
      | Inr (Some s) \<Rightarrow> s # recommendations_simple query_ingredients q recipes)"

text \<open>
  No statement outside the inner \<^verbatim>\<open>try\<close> can raise on values of these types, so the outer
  \<^verbatim>\<open>except\<close> (which returns the empty list) has no branch here and the result is a plain list.
\<close>

definition get_recommendations_simple :: "recipe list \<Rightarrow> query \<Rightarrow> scored list" where
  "get_recommendations_simple recipes q =
     (if ingredients_arg q = [] then []
      else
        let query_ingredients = normalized_set (ingredients_arg q);
            recommendations = recommendations_simple query_ingredients q recipes
        in slice_to (limit q) (sort_reverse match_score recommendations))"

subsection \<open>\<^verbatim>\<open>get_recommendations\<close> on a corpus whose entries need not be objects\<close>

text \<open>
  \<^verbatim>\<open>load_recipes\<close> takes whatever list stands under \<^verbatim>\<open>recipes\<close> in the JSON file. An entry
  that is not an object (a string, a number, a list, \<^verbatim>\<open>null\<close>) has no method \<^verbatim>\<open>get\<close>. Every
  path through the loop body calls \<^verbatim>\<open>recipe.get\<close> before it appends (at the latest for the
  ingredients), so the body raises \<^verbatim>\<open>AttributeError\<close> on such an entry; the inner handler then
  calls \<^verbatim>\<open>recipe.get('name', 'Unknown')\<close> for its log message and raises again, which only the
  outer \<^verbatim>\<open>except\<close> catches, returning the empty list.
\<close>

datatype entry = Object recipe | Not_object

definition score_entry_simple :: "string list \<Rightarrow> query \<Rightarrow> entry \<Rightarrow> py_error + scored option" where
  "score_entry_simple query_ingredients q x =
     (case x of Object r \<Rightarrow> score_recipe_simple query_ingredients q r
      | Not_object \<Rightarrow> Inl AttributeError)"

text \<open>\<^verbatim>\<open>recipe.get('name', 'Unknown')\<close> in the inner handler.\<close>

definition logged_name :: "entry \<Rightarrow> py_error + string" where
  "logged_name x =
     (case x of Object r \<Rightarrow> Inr (case name r of None \<Rightarrow> ''Unknown'' | Some n \<Rightarrow> n)
      | Not_object \<Rightarrow> Inl AttributeError)"

text \<open>The loop; \<open>Inl e\<close> when the handler raised \<open>e\<close>, which leaves the loop.\<close>

fun recommendations_entries ::
  "string list \<Rightarrow> query \<Rightarrow> entry list \<Rightarrow> py_error + scored list" where
  "recommendations_entries query_ingredients q [] = Inr []"
| "recommendations_entries query_ingredients q (x # entries) =
     (case score_entry_simple query_ingredients q x of
        Inl e \<Rightarrow>
          (case logged_name x of
             Inl e' \<Rightarrow> Inl e'
           | Inr n \<Rightarrow> recommendations_entries query_ingredients q entries)
      | Inr None \<Rightarrow> recommendations_entries query_ingredients q entries
      | Inr (Some s) \<Rightarrow>
          (case recommendations_entries query_ingredients q entries of
             Inl e' \<Rightarrow> Inl e'
           | Inr ss \<Rightarrow> Inr (s # ss)))"

text \<open>The whole method, with the outer \<^verbatim>\<open>except\<close> that returns the empty list.\<close>

definition get_recommendations_entries :: "entry list \<Rightarrow> query \<Rightarrow> scored list" where
  "get_recommendations_entries entries q =
     (if ingredients_arg q = [] then []
      else
        case recommendations_entries (normalized_set (ingredients_arg q)) q entries of
          Inl e \<Rightarrow> []
        | Inr recommendations \<Rightarrow> slice_to (limit q) (sort_reverse match_score recommendations))"

section \<open>RecipeRecommendationEngine (app.py)\<close>

subsection \<open>\<^verbatim>\<open>get_ingredient_substitutions\<close>\<close>

definition ingredient_substitutions :: "(string \<times> string list) list" where
  "ingredient_substitutions =
     [(''butter'', [''olive oil'', ''coconut oil'', ''margarine'']),
      (''milk'', [''almond milk'', ''soy milk'', ''coconut milk'']),
      (''eggs'', [''flax eggs'', ''chia eggs'', ''applesauce'']),
      (''flour'', [''almond flour'', ''coconut flour'', ''oat flour'']),
      (''sugar'', [''honey'', ''maple syrup'', ''stevia'']),
      (''chicken'', [''tofu'', ''tempeh'', ''mushrooms'']),
      (''beef'', [''lentils'', ''black beans'', ''portobello mushrooms'']),
      (''cheese'', [''nutritional yeast'', ''cashew cheese'', ''vegan cheese'']),
      (''cream'', [''coconut cream'', ''cashew cream'', ''silken tofu'']),
      (''bacon'', [''tempeh bacon'', ''coconut bacon'', ''mushroom bacon''])]"

text \<open>The loop over the items of the table, returning at the first match.\<close>

fun first_match :: "(string \<times> string list) list \<Rightarrow> string \<Rightarrow> string list" where
  "first_match [] ingredient_lower = []"
| "first_match ((key, substitutes) # table) ingredient_lower =
     (if sublist key ingredient_lower \<or> sublist ingredient_lower key then substitutes
      else first_match table ingredient_lower)"

definition get_ingredient_substitutions :: "string \<Rightarrow> string list" where
  "get_ingredient_substitutions ingredient = first_match ingredient_substitutions (lower ingredient)"

subsection \<open>\<^verbatim>\<open>filter_by_dietary_restrictions\<close>\<close>

definition meat_ingredients :: "string list" where
  "meat_ingredients =
     [''chicken'', ''beef'', ''pork'', ''lamb'', ''fish'', ''shrimp'', ''bacon'']"

definition animal_ingredients :: "string list" where
  "animal_ingredients =
     [''chicken'', ''beef'', ''pork'', ''lamb'', ''fish'', ''shrimp'', ''bacon'',
      ''cheese'', ''milk'', ''butter'', ''eggs'']"

text \<open>\<^verbatim>\<open>' '.join(recipe.get('ingredients', [])).lower()\<close>\<close>

definition ingredients_text :: "recipe \<Rightarrow> string" where
  "ingredients_text r = lower (join '' '' (get_ingredients r))"

text \<open>
  \<^verbatim>\<open>item in recipe.get('dietary_info', [])\<close>: membership in the tag list, or among the keys
  when the field is a dict.
\<close>

definition in_dietary_info :: "string \<Rightarrow> recipe \<Rightarrow> bool" where
  "in_dietary_info item r =
     (case dietary_info r of
        None \<Rightarrow> False
      | Some (Tags ts) \<Rightarrow> item \<in> set ts
      | Some (Flags fs) \<Rightarrow> item \<in> set (map fst fs))"

text \<open>The inner loop over the restrictions: the final value of \<^verbatim>\<open>violates_restriction\<close>.\<close>

fun violates_restriction :: "recipe \<Rightarrow> string list \<Rightarrow> bool" where
  "violates_restriction r [] = False"
| "violates_restriction r (restriction # restrictions) =
     (if restriction = ''vegetarian''
      then (if list_ex (\<lambda>meat. sublist meat (ingredients_text r)) meat_ingredients then True
            else violates_restriction r restrictions)
      else if restriction = ''vegan''
      then (if list_ex (\<lambda>item. in_dietary_info item r) [''contains_dairy'', ''contains_eggs'']
               \<or> list_ex (\<lambda>animal. sublist animal (ingredients_text r)) animal_ingredients
            then True
            else violates_restriction r restrictions)
      else if restriction = ''gluten_free'' \<and> in_dietary_info ''contains_gluten'' r then True
      else if restriction = ''dairy_free'' \<and> in_dietary_info ''contains_dairy'' r then True
      else violates_restriction r restrictions)"

definition filter_by_dietary_restrictions :: "recipe list \<Rightarrow> string list \<Rightarrow> recipe list" where
  "filter_by_dietary_restrictions rs restrictions =
     (if restrictions = [] then rs
      else filter (\<lambda>r. \<not> violates_restriction r restrictions) rs)"

subsection \<open>\<^verbatim>\<open>get_recommendations\<close>\<close>

text \<open>
  The TF-IDF vectoriser and the cosine similarity belong to scikit-learn and are not part of
  the repository; what the engine uses of them is carried as a parameter.
  \<^verbatim>\<open>self.recipe_vectors\<close> is \<^verbatim>\<open>None\<close> before \<^verbatim>\<open>_prepare_vectors\<close> has run and otherwise the
  sparse matrix returned by \<^verbatim>\<open>fit_transform\<close>, one row per recipe and one column per term.
  Of that matrix the model keeps the shape, the number of stored non-zero entries, and the
  function that maps a query text to the similarity of each corpus position
  (\<^verbatim>\<open>cosine_similarity(vectorizer.transform([query_text]), recipe_vectors).flatten()\<close>).
\<close>

record matrix =
  shape :: "nat \<times> nat"
  nnz :: nat
  similarity :: "string \<Rightarrow> nat \<Rightarrow> rat"

text \<open>
  The truth value of a sparse matrix, which \<^verbatim>\<open>not self.recipe_vectors\<close> takes: it is defined
  for the shape (1, 1) only and raises \<^verbatim>\<open>ValueError\<close> for every other shape.
\<close>

definition matrix_bool :: "matrix \<Rightarrow> py_error + bool" where
  "matrix_bool m = (if shape m = (1, 1) then Inr (nnz m \<noteq> 0) else Inl ValueError)"

record engine =
  recipes :: "recipe list"
  recipe_vectors :: "matrix option"

text \<open>
  \<^verbatim>\<open>next((idx for idx, r in enumerate(self.recipes) if r['id'] == recipe['id']), -1)\<close>:
  \<open>Inr None\<close> stands for \<open>-1\<close>; subscripting a record without \<^verbatim>\<open>id\<close> raises \<^verbatim>\<open>KeyError\<close>.
\<close>

fun original_index :: "recipe list \<Rightarrow> recipe \<Rightarrow> nat \<Rightarrow> py_error + nat option" where
  "original_index [] c idx = Inr None"
| "original_index (r # rs) c idx =
     (case recipe_id r of
        None \<Rightarrow> Inl KeyError
      | Some a \<Rightarrow>
          (case recipe_id c of
             None \<Rightarrow> Inl KeyError
           | Some b \<Rightarrow> if a = b then Inr (Some idx) else original_index rs c (Suc idx)))"

text \<open>\<^verbatim>\<open>difficulty and recipe.get('difficulty') != difficulty\<close>, and the same for the cuisine.\<close>

definition differs_exact :: "string option \<Rightarrow> string option \<Rightarrow> bool" where
  "differs_exact wanted field =
     (case wanted of None \<Rightarrow> False | Some w \<Rightarrow> w \<noteq> [] \<and> field \<noteq> Some w)"

definition filtered_out_engine :: "query \<Rightarrow> recipe \<Rightarrow> bool" where
  "filtered_out_engine q r =
     (exceeds_cooking_time (max_cooking_time q) r
      \<or> differs_exact (difficulty_arg q) (difficulty r)
      \<or> differs_exact (cuisine_preference q) (cuisine r))"

text \<open>The loop that fills \<^verbatim>\<open>substitution_suggestions\<close> from the first three missing ingredients.\<close>

definition suggestions_engine :: "string list \<Rightarrow> (string \<times> string list) list" where
  "suggestions_engine missing =
     fold (\<lambda>missing_ing suggestions.
             let substitutions = get_ingredient_substitutions missing_ing
             in if substitutions \<noteq> []
                then AList.update missing_ing (take 2 substitutions) suggestions
                else suggestions)
          (take 3 missing) []"

definition recipe_copy_engine :: "recipe \<Rightarrow> string list \<Rightarrow> string list \<Rightarrow> rat \<Rightarrow> rat \<Rightarrow> scored" where
  "recipe_copy_engine r recipe_ingredients query_ingredients final_score ingredient_match_score =
     \<lparr> recipe = r,
       match_score = round1 (final_score * 100),
       ingredient_match_percentage = round1 (ingredient_match_score * 100),
       missing_ingredients = difference recipe_ingredients query_ingredients,
       substitution_suggestions =
         suggestions_engine (difference recipe_ingredients query_ingredients) \<rparr>"

text \<open>
  The scoring of one candidate that passed the filters; \<open>ml_score\<close> is
  \<^verbatim>\<open>similarities[original_index]\<close>. The two conditional expressions guard the divisions.
\<close>

definition score_engine :: "rat \<Rightarrow> string list \<Rightarrow> recipe \<Rightarrow> py_error + scored" where
  "score_engine ml_score ings r =
     (let recipe_ingredients = py_set (map lower (get_ingredients r));
          query_ingredients = py_set (map lower ings);
          direct_matches = length (intersection recipe_ingredients query_ingredients)
      in case (if recipe_ingredients \<noteq> [] then py_div direct_matches (length recipe_ingredients)
               else Inr 0) of
           Inl e \<Rightarrow> Inl e
         | Inr ingredient_match_score \<Rightarrow>
             (case (if query_ingredients \<noteq> []
                    then py_div (length (intersection query_ingredients recipe_ingredients))
                                (length query_ingredients)
                    else Inr 0) of
                Inl e \<Rightarrow> Inl e
              | Inr coverage_score \<Rightarrow>
                  (let final_score = ml_score * (4 / 10) + ingredient_match_score * (4 / 10)
                                     + coverage_score * (2 / 10)
                   in Inr (recipe_copy_engine r recipe_ingredients query_ingredients
                             final_score ingredient_match_score))))"

text \<open>The body of the loop over the candidates. Nothing catches an exception here.\<close>

definition score_recipe_engine ::
  "(nat \<Rightarrow> rat) \<Rightarrow> recipe list \<Rightarrow> query \<Rightarrow> recipe \<Rightarrow> py_error + scored option" where
  "score_recipe_engine similarities all_recipes q r =
     (case original_index all_recipes r 0 of
        Inl e \<Rightarrow> Inl e
      | Inr None \<Rightarrow> Inr None
      | Inr (Some i) \<Rightarrow>
          if filtered_out_engine q r then Inr None
          else (case score_engine (similarities i) (ingredients_arg q) r of
                  Inl e \<Rightarrow> Inl e
                | Inr s \<Rightarrow> Inr (Some s)))"

fun recommendations_engine ::
  "(nat \<Rightarrow> rat) \<Rightarrow> recipe list \<Rightarrow> query \<Rightarrow> recipe list \<Rightarrow> py_error + scored list" where
  "recommendations_engine similarities all_recipes q [] = Inr []"
| "recommendations_engine similarities all_recipes q (r # candidates) =
     (case score_recipe_engine similarities all_recipes q r of
        Inl e \<Rightarrow> Inl e
      | Inr None \<Rightarrow> recommendations_engine similarities all_recipes q candidates
      | Inr (Some s) \<Rightarrow>
          (case recommendations_engine similarities all_recipes q candidates of
             Inl e \<Rightarrow> Inl e
           | Inr ss \<Rightarrow> Inr (s # ss)))"

text \<open>The query text handed to the vectoriser.\<close>

definition query_text :: "query \<Rightarrow> string" where
  "query_text q =
     join '' '' ([join '' '' (ingredients_arg q)]
                 @ (if truthy_str (cuisine_preference q) then [the (cuisine_preference q)] else [])
                 @ (if truthy_str (difficulty_arg q) then [the (difficulty_arg q)] else []))"

text \<open>
  \<^verbatim>\<open>if not self.recipes or not self.recipe_vectors: return []\<close>. The second operand is
  evaluated for a non-empty corpus only: \<open>Inr True\<close> when the method returns the empty list
  here, \<open>Inr False\<close> when it goes on, \<open>Inl ValueError\<close> when the truth value of the matrix
  is not defined.
\<close>

definition nothing_to_rank :: "engine \<Rightarrow> py_error + bool" where
  "nothing_to_rank e =
     (if recipes e = [] then Inr True
      else case recipe_vectors e of
             None \<Rightarrow> Inr True
           | Some m \<Rightarrow> (case matrix_bool m of Inl err \<Rightarrow> Inl err | Inr b \<Rightarrow> Inr (\<not> b)))"

text \<open>The rest of the method, for the matrix \<open>m\<close>.\<close>

definition rank_engine :: "engine \<Rightarrow> matrix \<Rightarrow> query \<Rightarrow> py_error + scored list" where
  "rank_engine e m q =
     (let similarities = similarity m (query_text q);
          candidates = (if dietary_restrictions q \<noteq> []
                        then filter_by_dietary_restrictions (recipes e) (dietary_restrictions q)
                        else recipes e)
      in case recommendations_engine similarities (recipes e) q candidates of
           Inl err \<Rightarrow> Inl err
         | Inr recommendations \<Rightarrow>
             Inr (slice_to (limit q) (sort_reverse match_score recommendations)))"

definition get_recommendations_engine :: "engine \<Rightarrow> query \<Rightarrow> py_error + scored list" where
  "get_recommendations_engine e q =
     (case nothing_to_rank e of
        Inl err \<Rightarrow> Inl err
      | Inr True \<Rightarrow> Inr []
      | Inr False \<Rightarrow> rank_engine e (the (recipe_vectors e)) q)"

section \<open>The scoring formula in the words of the specification\<close>

text \<open>
  These two definitions are not taken from the code: they write down the sets and the formula
  of the specification (section 4.4, steps 1 to 7, direct-match-gated policy), against which
  the code is compared. \<open>name_set\<close> is the set of lower-cased, trimmed names of a list;
  \<open>spec_gated_score R Q\<close> is \<open>0.6 * |R \<inter> Q| / |R| + 0.4 * |R \<inter> Q| / |Q|\<close>.
\<close>

definition name_set :: "string list \<Rightarrow> string set" where
  "name_set ings = (\<lambda>i. strip (lower i)) ` set ings"

definition spec_gated_score :: "string set \<Rightarrow> string set \<Rightarrow> rat" where
  "spec_gated_score R Q =
     6 / 10 * (rat_of_nat (card (R \<inter> Q)) / rat_of_nat (card R))
     + 4 / 10 * (rat_of_nat (card (R \<inter> Q)) / rat_of_nat (card Q))"

section \<open>Example data\<close>

text \<open>
  The two-recipe corpus of the specification's scenarios and a query for rice and garlic.
\<close>

definition recipe_1 :: recipe where
  "recipe_1 =
     \<lparr> recipe_id = Some 1, name = Some ''Chicken rice'',
       ingredients = Some [''chicken'', ''rice'', ''garlic''],
       cuisine = Some ''asian'', difficulty = Some ''easy'', cooking_time = Some 20,
       dietary_info = Some (Tags []) \<rparr>"

definition recipe_2 :: recipe where
  "recipe_2 =
     \<lparr> recipe_id = Some 2, name = Some ''Tofu rice'',
       ingredients = Some [''tofu'', ''rice'', ''garlic''],
       cuisine = Some ''asian'', difficulty = Some ''easy'', cooking_time = Some 15,
       dietary_info = Some (Flags [(''vegetarian'', True), (''vegan'', True)]) \<rparr>"

definition rice_garlic :: query where
  "rice_garlic =
     \<lparr> ingredients_arg = [''rice'', ''garlic''], dietary_restrictions = [],
       max_cooking_time = None, difficulty_arg = None, cuisine_preference = None,
       limit = 10 \<rparr>"

text \<open>
  The engine built on that corpus. Its text profiles hold fifteen terms (eight words and
  seven word pairs), of which the two rows store 22 weights; the similarity function is
  never consulted, because the truth value of a 2 by 15 matrix is not defined.
\<close>

definition engine_12 :: engine where
  "engine_12 =
     \<lparr> recipes = [recipe_1, recipe_2],
       recipe_vectors = Some \<lparr> shape = (2, 15), nnz = 22, similarity = (\<lambda>text idx. 0) \<rparr> \<rparr>"

text \<open>
  Corpora of one recipe whose text profile (ingredients, cuisine, difficulty, dietary tags)
  is a single word: their matrix has shape (1, 1) and one stored weight, and the cosine
  similarity of a query text is 1 when that word is one of its lower-cased words and 0
  otherwise. On the query texts used below, containing the word decides that.
\<close>

definition single_term :: "string \<Rightarrow> matrix" where
  "single_term t =
     \<lparr> shape = (1, 1), nnz = 1,
       similarity = (\<lambda>text idx. if sublist t (lower text) then 1 else 0) \<rparr>"

definition rice_only :: recipe where
  "rice_only =
     \<lparr> recipe_id = Some 1, name = Some ''Plain rice'', ingredients = Some [''rice''],
       cuisine = None, difficulty = None, cooking_time = None, dietary_info = None \<rparr>"

definition engine_rice :: engine where
  "engine_rice = \<lparr> recipes = [rice_only], recipe_vectors = Some (single_term ''rice'') \<rparr>"



definition easy_only :: recipe where
  "easy_only =
     \<lparr> recipe_id = Some 1, name = Some ''Toast'', ingredients = None,
       cuisine = None, difficulty = Some ''easy'', cooking_time = None, dietary_info = None \<rparr>"

definition engine_easy :: engine where
  "engine_easy = \<lparr> recipes = [easy_only], recipe_vectors = Some (single_term ''easy'') \<rparr>"

section \<open>General lemmas\<close>

lemma set_slice_to: "set (slice_to n xs) \<subseteq> set xs"
  by (auto simp: slice_to_def dest: in_set_takeD)

lemma length_slice_to: "0 \<le> n \<Longrightarrow> length (slice_to n xs) \<le> nat n"
  by (simp add: slice_to_def)

lemma set_sort_reverse: "set (sort_reverse k xs) = set xs"
  by (simp add: sort_reverse_def)

lemma in_slice_sortD: "s \<in> set (slice_to n (sort_reverse k xs)) \<Longrightarrow> s \<in> set xs"
  using set_slice_to [of n "sort_reverse k xs"] by (auto simp: set_sort_reverse)

lemma in_recommendations_simple:
  "s \<in> set (recommendations_simple qi q rs) \<Longrightarrow>
     \<exists>r\<in>set rs. score_recipe_simple qi q r = Inr (Some s)"
  by (induction rs) (auto split: sum.splits option.splits)

lemma in_get_recommendations_simple:
  assumes "s \<in> set (get_recommendations_simple rs q)"
  shows "ingredients_arg q \<noteq> [] \<and>
         (\<exists>r\<in>set rs. score_recipe_simple (normalized_set (ingredients_arg q)) q r = Inr (Some s))"
proof -
  from assms have ne: "ingredients_arg q \<noteq> []"
    by (auto simp: get_recommendations_simple_def split: if_splits)
  with assms have "s \<in> set (recommendations_simple (normalized_set (ingredients_arg q)) q rs)"
    by (auto simp: get_recommendations_simple_def Let_def dest: in_slice_sortD)
  with ne show ?thesis by (auto dest: in_recommendations_simple)
qed

lemma in_recommendations_engine:
  "recommendations_engine sims all q cs = Inr ss \<Longrightarrow> s \<in> set ss \<Longrightarrow>
     \<exists>r\<in>set cs. score_recipe_engine sims all q r = Inr (Some s)"
  by (induction cs arbitrary: ss) (auto split: sum.splits option.splits)

lemma get_recommendations_engine_cases:
  "get_recommendations_engine e q = Inl ValueError
   \<or> get_recommendations_engine e q = Inr []
   \<or> (\<exists>m. recipe_vectors e = Some m \<and> shape m = (1, 1) \<and> recipes e \<noteq> []
          \<and> get_recommendations_engine e q = rank_engine e m q)"
  by (cases "recipe_vectors e"; cases "nnz (the (recipe_vectors e)) = 0")
     (auto simp: get_recommendations_engine_def nothing_to_rank_def matrix_bool_def)

lemma rank_engine_InrD:
  assumes "rank_engine e m q = Inr res"
  shows "\<exists>recs. recommendations_engine (similarity m (query_text q)) (recipes e) q
                  (if dietary_restrictions q \<noteq> []
                   then filter_by_dietary_restrictions (recipes e) (dietary_restrictions q)
                   else recipes e) = Inr recs
               \<and> res = slice_to (limit q) (sort_reverse match_score recs)"
  using assms by (auto simp: rank_engine_def Let_def split: sum.splits)

lemma get_recommendations_engine_InrD:
  assumes "get_recommendations_engine e q = Inr res"
  shows "res = [] \<or> (\<exists>m. recipe_vectors e = Some m \<and> rank_engine e m q = Inr res)"
  using assms get_recommendations_engine_cases [of e q] by auto

lemma in_get_recommendations_engine:
  assumes "get_recommendations_engine e q = Inr res" "s \<in> set res"
  shows "\<exists>m. recipe_vectors e = Some m \<and>
           (\<exists>r\<in>set (recipes e).
              score_recipe_engine (similarity m (query_text q)) (recipes e) q r = Inr (Some s))"
proof -
  from get_recommendations_engine_InrD [OF assms(1)] assms(2) obtain m where
    m: "recipe_vectors e = Some m" and r: "rank_engine e m q = Inr res"
    by auto
  define cs where "cs = (if dietary_restrictions q \<noteq> []
       then filter_by_dietary_restrictions (recipes e) (dietary_restrictions q) else recipes e)"
  have sub: "set cs \<subseteq> set (recipes e)"
    by (auto simp: cs_def filter_by_dietary_restrictions_def)
  from rank_engine_InrD [OF r] obtain recs where
    recs: "recommendations_engine (similarity m (query_text q)) (recipes e) q cs = Inr recs"
    and res: "res = slice_to (limit q) (sort_reverse match_score recs)"
    unfolding cs_def by blast
  from res assms(2) have "s \<in> set recs"
    by (auto dest: in_slice_sortD)
  from in_recommendations_engine [OF recs this] sub m show ?thesis by blast
qed

lemma round1_0: "round1 0 = 0"
  by (simp add: round1_def)

section \<open>C1: the empty ingredient list\<close>

lemma score_engine_empty_query:
  assumes "score_engine ml [] r = Inr s"
  shows "ingredient_match_percentage s = 0"
  using assms
  by (auto simp: score_engine_def Let_def py_set_def intersection_def py_div_def
        recipe_copy_engine_def round1_0 split: if_splits)

text \<open>
  C1, as the specification states it: for every query whose ingredient list is empty,
  \<^verbatim>\<open>get_recommendations\<close> returns an empty result list, whatever the corpus, the filters and
  the limit.

  This does not hold of \<^verbatim>\<open>RecipeRecommendationEngine.get_recommendations\<close> (app.py), which has
  no early return and guards the coverage division with \<^verbatim>\<open>if query_ingredients else 0\<close>:
  on the corpus of the one recipe of plain rice it returns that recipe, with score 0.
\<close>

theorem empty_ingredients_counterexample:
  "get_recommendations_engine engine_rice (rice_garlic\<lparr>ingredients_arg := []\<rparr>)
   = Inr [\<lparr>recipe = rice_only, match_score = 0, ingredient_match_percentage = 0,
           missing_ingredients = [''rice''], substitution_suggestions = []\<rparr>]"
  by code_simp

text \<open>
  C1, amended: for every query whose ingredient list is empty, the direct-match-gated engine
  (\<^verbatim>\<open>SimpleRecipeRecommender.get_recommendations\<close>) returns the empty list, whatever the corpus,
  the filters and the limit, as a normal return. The ML-blended engine
  (\<^verbatim>\<open>RecipeRecommendationEngine.get_recommendations\<close>) returns the empty list when the corpus is
  empty or the vectors are not fitted; otherwise it does not special-case the empty query,
  and every result of a call that returns has ingredient match percentage 0.
\<close>

theorem empty_ingredients:
  assumes "ingredients_arg q = []"
  shows "get_recommendations_simple rs q = []
       \<and> (recipes e = [] \<or> recipe_vectors e = None \<longrightarrow> get_recommendations_engine e q = Inr [])
       \<and> (\<forall>res. get_recommendations_engine e q = Inr res \<longrightarrow>
            (\<forall>s\<in>set res. ingredient_match_percentage s = 0))"
proof (intro conjI allI impI ballI)
  show "get_recommendations_simple rs q = []"
    using assms by (simp add: get_recommendations_simple_def)
next
  assume "recipes e = [] \<or> recipe_vectors e = None"
  then show "get_recommendations_engine e q = Inr []"
    by (auto simp: get_recommendations_engine_def nothing_to_rank_def)
next
  fix res s
  assume "get_recommendations_engine e q = Inr res" "s \<in> set res"
  from in_get_recommendations_engine [OF this] obtain m :: matrix and r where
    "score_recipe_engine (similarity m (query_text q)) (recipes e) q r = Inr (Some s)"
    by blast
  then obtain ml where "score_engine ml (ingredients_arg q) r = Inr s"
    by (auto simp: score_recipe_engine_def split: sum.splits option.splits if_splits)
  with assms show "ingredient_match_percentage s = 0"
    by (simp add: score_engine_empty_query)
qed

theorem empty_ingredients_witness:
  "ingredients_arg (rice_garlic\<lparr>ingredients_arg := []\<rparr>) = []
   \<and> get_recommendations_simple [recipe_1, recipe_2] (rice_garlic\<lparr>ingredients_arg := []\<rparr>) = []
   \<and> get_recommendations_engine \<lparr>recipes = [], recipe_vectors = None\<rparr>
        (rice_garlic\<lparr>ingredients_arg := []\<rparr>) = Inr []
   \<and> projr (get_recommendations_engine engine_rice (rice_garlic\<lparr>ingredients_arg := []\<rparr>)) \<noteq> []
   \<and> ingredient_match_percentage
        (hd (projr (get_recommendations_engine engine_rice (rice_garlic\<lparr>ingredients_arg := []\<rparr>))))
       = 0"
proof -
  let ?q = "rice_garlic\<lparr>ingredients_arg := []\<rparr>"
  have h: "ingredients_arg ?q = []" by simp
  have r: "get_recommendations_engine engine_rice ?q
             = Inr (projr (get_recommendations_engine engine_rice ?q))"
    by code_simp
  have ne: "projr (get_recommendations_engine engine_rice ?q) \<noteq> []" by code_simp
  then have mem: "hd (projr (get_recommendations_engine engine_rice ?q))
                    \<in> set (projr (get_recommendations_engine engine_rice ?q))"
    by (rule hd_in_set)
  from empty_ingredients [OF h, of "[recipe_1, recipe_2]" "\<lparr>recipes = [], recipe_vectors = None\<rparr>"]
  have a: "get_recommendations_simple [recipe_1, recipe_2] ?q = []"
    and b: "get_recommendations_engine \<lparr>recipes = [], recipe_vectors = None\<rparr> ?q = Inr []"
    by simp_all
  from empty_ingredients [OF h, of "[]" engine_rice] r mem
  have c: "ingredient_match_percentage
             (hd (projr (get_recommendations_engine engine_rice ?q))) = 0"
    by blast
  from h a b ne c show ?thesis by blast
qed

section \<open>C10: a recipe without cooking time\<close>

text \<open>
  C10: a recipe record with no \<^verbatim>\<open>cooking_time\<close> field is never excluded by the
  \<^verbatim>\<open>max_cooking_time\<close> filter: the missing value defaults to 0, which satisfies every positive
  bound. In both engines the loop body gives such a record the same outcome with the bound
  set to a positive \<open>m\<close> as with no bound at all.
\<close>

theorem no_cooking_time:
  assumes "cooking_time r = None" "0 < m"
  shows "\<not> exceeds_cooking_time (Some m) r
       \<and> score_recipe_simple qi (q\<lparr>max_cooking_time := Some m\<rparr>) r
           = score_recipe_simple qi (q\<lparr>max_cooking_time := None\<rparr>) r
       \<and> score_recipe_engine sims all (q\<lparr>max_cooking_time := Some m\<rparr>) r
           = score_recipe_engine sims all (q\<lparr>max_cooking_time := None\<rparr>) r"
proof -
  from assms have a: "\<not> exceeds_cooking_time (Some m) r"
    by (simp add: exceeds_cooking_time_def get_cooking_time_def)
  have b: "\<not> exceeds_cooking_time None r"
    by (simp add: exceeds_cooking_time_def)
  have fs: "filtered_out_simple (q\<lparr>max_cooking_time := Some m\<rparr>) r
            = filtered_out_simple (q\<lparr>max_cooking_time := None\<rparr>) r"
    using a b by (simp add: filtered_out_simple_def split: sum.splits)
  have fe: "filtered_out_engine (q\<lparr>max_cooking_time := Some m\<rparr>) r
            = filtered_out_engine (q\<lparr>max_cooking_time := None\<rparr>) r"
    using a b by (simp add: filtered_out_engine_def)
  have "score_recipe_engine sims all (q\<lparr>max_cooking_time := Some m\<rparr>) r
           = score_recipe_engine sims all (q\<lparr>max_cooking_time := None\<rparr>) r"
    by (simp add: score_recipe_engine_def fe split: sum.splits option.splits)
  with a fs show ?thesis
    by (simp add: score_recipe_simple_def)
qed

theorem no_cooking_time_witness:
  "cooking_time (recipe_1\<lparr>cooking_time := None\<rparr>) = None \<and> (0 :: int) < 10
   \<and> \<not> exceeds_cooking_time (Some 10) (recipe_1\<lparr>cooking_time := None\<rparr>)
   \<and> score_recipe_simple [''rice''] (rice_garlic\<lparr>max_cooking_time := Some 10\<rparr>)
         (recipe_1\<lparr>cooking_time := None\<rparr>)
       = score_recipe_simple [''rice''] (rice_garlic\<lparr>max_cooking_time := None\<rparr>)
           (recipe_1\<lparr>cooking_time := None\<rparr>)"
proof -
  have h: "cooking_time (recipe_1\<lparr>cooking_time := None\<rparr>) = None" by simp
  have m: "(0 :: int) < 10" by simp
  from no_cooking_time [OF h m, of "[''rice'']" rice_garlic]
  show ?thesis using h by simp
qed

section \<open>C4: spellings of the dietary restrictions\<close>

lemma matches_ignores_head:
  assumes "lower x \<notin> {''vegetarian'', ''vegan'', ''gluten-free'', ''dairy-free''}"
  shows "matches_dietary_restrictions d (x # ys) = matches_dietary_restrictions d ys"
proof -
  from assms have a: "lower x \<noteq> ''vegetarian''" "lower x \<noteq> ''vegan''"
    "lower x \<noteq> ''gluten-free''" "lower x \<noteq> ''dairy-free''"
    by auto
  show ?thesis
    by (subst matches_dietary_restrictions.simps)
       (simp only: Let_def restriction_fails_def a if_False sum.case bool.case)
qed

lemma violates_underscore:
  "violates_restriction r [''gluten_free''] = in_dietary_info ''contains_gluten'' r"
  "violates_restriction r [''dairy_free''] = in_dietary_info ''contains_dairy'' r"
  by (subst violates_restriction.simps, simp)+

lemma matches_ignores:
  assumes "lower x \<notin> {''vegetarian'', ''vegan'', ''gluten-free'', ''dairy-free''}"
  shows "matches_dietary_restrictions d (xs @ x # ys) = matches_dietary_restrictions d (xs @ ys)"
proof (induction xs)
  case Nil
  from matches_ignores_head [OF assms] show ?case by (simp only: append_Nil)
next
  case (Cons a xs)
  then show ?case
    by (simp add: Let_def split: sum.splits bool.splits)
qed

lemma violates_ignores:
  assumes "x \<notin> {''vegetarian'', ''vegan'', ''gluten_free'', ''dairy_free''}"
  shows "violates_restriction r (xs @ x # ys) = violates_restriction r (xs @ ys)"
proof (induction xs)
  case Nil
  from assms show ?case by simp
next
  case (Cons a xs)
  then show ?case by simp
qed

lemma lower_literals:
  "lower ''gluten-free'' = ''gluten-free''" "lower ''dairy-free'' = ''dairy-free''"
  by code_simp+

lemma matches_hyphen:
  "matches_dietary_restrictions (Flags fs) [''gluten-free''] = Inr (dict_get fs ''gluten_free'' False)"
  "matches_dietary_restrictions (Flags fs) [''dairy-free''] = Inr (dict_get fs ''dairy_free'' False)"
  by (simp_all add: lower_literals restriction_fails_def flag_unset_def Let_def split: bool.splits)

text \<open>
  C4, amended: neither engine normalises the spelling of a restriction name. The gated
  engine's \<^verbatim>\<open>_matches_dietary_restrictions\<close> recognises, after lower-casing, only
  \<^verbatim>\<open>vegetarian\<close>, \<^verbatim>\<open>vegan\<close>, \<^verbatim>\<open>gluten-free\<close> and \<^verbatim>\<open>dairy-free\<close> (the hyphen spelling,
  which tests the flags \<^verbatim>\<open>gluten_free\<close> and \<^verbatim>\<open>dairy_free\<close>); every other name, the
  underscore spellings included, is ignored and can be dropped from the list. The ML-blended
  engine's \<^verbatim>\<open>filter_by_dietary_restrictions\<close> recognises only \<^verbatim>\<open>vegetarian\<close>, \<^verbatim>\<open>vegan\<close>,
  \<^verbatim>\<open>gluten_free\<close> and \<^verbatim>\<open>dairy_free\<close> (the underscore spelling, which tests the tags
  \<^verbatim>\<open>contains_gluten\<close> and \<^verbatim>\<open>contains_dairy\<close>); every other name, the hyphen spellings
  included, is ignored.
\<close>

theorem dietary_spellings:
  "(lower x \<notin> {''vegetarian'', ''vegan'', ''gluten-free'', ''dairy-free''} \<longrightarrow>
      matches_dietary_restrictions d (xs @ x # ys) = matches_dietary_restrictions d (xs @ ys))
   \<and> matches_dietary_restrictions (Flags fs) [''gluten-free''] = Inr (dict_get fs ''gluten_free'' False)
   \<and> matches_dietary_restrictions (Flags fs) [''dairy-free''] = Inr (dict_get fs ''dairy_free'' False)
   \<and> (y \<notin> {''vegetarian'', ''vegan'', ''gluten_free'', ''dairy_free''} \<longrightarrow>
      violates_restriction r (xs @ y # ys) = violates_restriction r (xs @ ys))
   \<and> violates_restriction r [''gluten_free''] = in_dietary_info ''contains_gluten'' r
   \<and> violates_restriction r [''dairy_free''] = in_dietary_info ''contains_dairy'' r"
  using matches_ignores [of x d xs ys] violates_ignores [of y r xs ys]
  by (simp add: matches_hyphen violates_underscore del: matches_dietary_restrictions.simps violates_restriction.simps)
   

text \<open>
  C4, as the specification states it: the dietary filter accepts both the hyphen and the
  underscore spelling of a restriction name and treats them identically. In the gated engine
  a recipe whose \<^verbatim>\<open>gluten_free\<close> flag is false is rejected for \<^verbatim>\<open>gluten-free\<close> and accepted for
  \<^verbatim>\<open>gluten_free\<close>; in the ML-blended engine a recipe tagged \<^verbatim>\<open>contains_gluten\<close> violates
  \<^verbatim>\<open>gluten_free\<close> and not \<^verbatim>\<open>gluten-free\<close>.
\<close>

theorem dietary_spellings_counterexample:
  "matches_dietary_restrictions (Flags [(''gluten_free'', False)]) [''gluten-free'']
     \<noteq> matches_dietary_restrictions (Flags [(''gluten_free'', False)]) [''gluten_free'']
   \<and> violates_restriction (recipe_1\<lparr>dietary_info := Some (Tags [''contains_gluten''])\<rparr>) [''gluten_free'']
     \<noteq> violates_restriction (recipe_1\<lparr>dietary_info := Some (Tags [''contains_gluten''])\<rparr>) [''gluten-free'']"
  by code_simp

theorem dietary_spellings_witness:
  "lower ''gluten_free'' \<notin> {''vegetarian'', ''vegan'', ''gluten-free'', ''dairy-free''}
   \<and> matches_dietary_restrictions (Flags [(''gluten_free'', False)]) ([''vegan''] @ ''gluten_free'' # [])
       = matches_dietary_restrictions (Flags [(''gluten_free'', False)]) ([''vegan''] @ [])
   \<and> ''gluten-free'' \<notin> {''vegetarian'', ''vegan'', ''gluten_free'', ''dairy_free''}
   \<and> violates_restriction recipe_1 ([''vegan''] @ ''gluten-free'' # [])
       = violates_restriction recipe_1 ([''vegan''] @ [])"
proof -
  have h1: "lower ''gluten_free'' \<notin> {''vegetarian'', ''vegan'', ''gluten-free'', ''dairy-free''}"
    by code_simp
  have h2: "''gluten-free'' \<notin> {''vegetarian'', ''vegan'', ''gluten_free'', ''dairy_free''}"
    by simp
  from dietary_spellings [of "''gluten_free''" "Flags [(''gluten_free'', False)]" "[''vegan'']" "[]"
      "[(''gluten_free'', False)]" "''gluten-free''" recipe_1] h1 h2
  show ?thesis by blast
qed

section \<open>C5: the substitution lookup\<close>

text \<open>
  C5: the substitution lookup returns the substitutes of the first table entry whose key
  matches the ingredient name by case-insensitive substring in either direction, and nothing
  when no key matches. \<^verbatim>\<open>get_ingredient_substitutions\<close> of app.py does so;
  \<^verbatim>\<open>_get_substitutions\<close> of app_working.py only tests \<^verbatim>\<open>key in ingredient_lower\<close>. For the
  ingredient \<^verbatim>\<open>egg\<close>, contained in the key \<^verbatim>\<open>eggs\<close>, the second gives no suggestion where the
  first gives the substitutes of \<^verbatim>\<open>eggs\<close>.
\<close>

theorem substitutions_one_direction:
  "get_substitutions [''egg''] = []
   \<and> get_ingredient_substitutions ''egg'' = [''flax eggs'', ''chia eggs'', ''applesauce'']"
  by code_simp

text \<open>
  The lookup of app.py, for every ingredient name: the substitutes of the first entry of the
  table whose key is contained in the lower-cased name or contains it, and the empty list
  when there is none.
\<close>

lemma first_match_find:
  "first_match table il =
     (case find (\<lambda>(key, subs). sublist key il \<or> sublist il key) table of
        None \<Rightarrow> [] | Some (key, subs) \<Rightarrow> subs)"
  by (induction table il rule: first_match.induct) auto

theorem get_ingredient_substitutions_first_match:
  "get_ingredient_substitutions x =
     (case find (\<lambda>(key, subs). sublist key (lower x) \<or> sublist (lower x) key)
             ingredient_substitutions of
        None \<Rightarrow> [] | Some (key, subs) \<Rightarrow> subs)"
  by (simp add: get_ingredient_substitutions_def first_match_find)

section \<open>C7: case of the difficulty and cuisine filters\<close>

text \<open>
  C7: when a difficulty or cuisine filter is set, a candidate survives it if and only if its
  difficulty (cuisine) equals the filter value under case-insensitive comparison.
  \<^verbatim>\<open>SimpleRecipeRecommender\<close> compares the lower-cased strings;
  \<^verbatim>\<open>RecipeRecommendationEngine\<close> compares with \<^verbatim>\<open>!=\<close>. On the corpus of the one recipe
  whose profile is its difficulty \<^verbatim>\<open>easy\<close>, the second returns nothing for the filter
  \<^verbatim>\<open>Easy\<close> and the recipe for the filter \<^verbatim>\<open>easy\<close>; the first, on the two recipes of
  difficulty \<^verbatim>\<open>easy\<close>, returns the same recipes for both filters.
\<close>

theorem difficulty_case_engine:
  "get_recommendations_engine engine_easy (rice_garlic\<lparr>difficulty_arg := Some ''Easy''\<rparr>) = Inr []
   \<and> get_recommendations_engine engine_easy (rice_garlic\<lparr>difficulty_arg := Some ''easy''\<rparr>)
       = Inr [\<lparr>recipe = easy_only, match_score = 40, ingredient_match_percentage = 0,
               missing_ingredients = [], substitution_suggestions = []\<rparr>]
   \<and> get_recommendations_simple [recipe_1, recipe_2] (rice_garlic\<lparr>difficulty_arg := Some ''Easy''\<rparr>)
       = get_recommendations_simple [recipe_1, recipe_2] (rice_garlic\<lparr>difficulty_arg := Some ''easy''\<rparr>)
   \<and> get_recommendations_simple [recipe_1, recipe_2] (rice_garlic\<lparr>difficulty_arg := Some ''Easy''\<rparr>)
       \<noteq> []"
  by code_simp

text \<open>
  The filters of app_working.py, for every query and recipe: with a non-empty difficulty
  (cuisine) filter \<open>w\<close>, the recipe passes the filters if and only if it passes them without
  that filter and its difficulty (cuisine, the empty string when absent) equals \<open>w\<close> after
  lower-casing both.
\<close>

theorem case_insensitive_filters_simple:
  assumes "w \<noteq> []"
  shows "(filtered_out_simple (q\<lparr>difficulty_arg := Some w\<rparr>) r = Inr False)
           = (filtered_out_simple (q\<lparr>difficulty_arg := None\<rparr>) r = Inr False
              \<and> lower (case difficulty r of None \<Rightarrow> [] | Some d \<Rightarrow> d) = lower w)
       \<and> (filtered_out_simple (q\<lparr>cuisine_preference := Some w\<rparr>) r = Inr False)
           = (filtered_out_simple (q\<lparr>cuisine_preference := None\<rparr>) r = Inr False
              \<and> lower (case cuisine r of None \<Rightarrow> [] | Some c \<Rightarrow> c) = lower w)"
  using assms
  by (auto simp: filtered_out_simple_def differs_lower_def split: sum.splits)

theorem case_insensitive_filters_simple_witness:
  "''EASY'' \<noteq> []
   \<and> filtered_out_simple (rice_garlic\<lparr>difficulty_arg := Some ''EASY''\<rparr>) recipe_1 = Inr False"
proof -
  have h: "''EASY'' \<noteq> []" by simp
  have a: "filtered_out_simple (rice_garlic\<lparr>difficulty_arg := None\<rparr>) recipe_1 = Inr False"
    by code_simp
  have b: "lower (case difficulty recipe_1 of None \<Rightarrow> [] | Some d \<Rightarrow> d) = lower ''EASY''"
    by code_simp
  from case_insensitive_filters_simple [OF h, of rice_garlic recipe_1] a b
  show ?thesis using h by blast
qed

section \<open>Errors and outcomes of the loop bodies\<close>




lemma normalized_set_Nil [simp]: "normalized_set [] = []"
  by (simp add: normalized_set_def py_set_def)

lemma normalized_set_eq_Nil [simp]: "normalized_set xs = [] \<longleftrightarrow> xs = []"
  by (cases xs) (auto simp: normalized_set_def py_set_def)


lemma score_simple_empty: "get_ingredients r = [] \<Longrightarrow> score_simple qi r = Inr None"
  by (simp add: score_simple_def)

lemma score_simple_SomeD:
  "score_simple qi r = Inr (Some s) \<Longrightarrow> recipe s = r \<and> get_ingredients r \<noteq> []"
  by (auto simp: score_simple_def Let_def py_div_def recipe_copy_simple_def split: if_splits)

lemma score_recipe_simple_SomeD:
  "score_recipe_simple qi q r = Inr (Some s) \<Longrightarrow>
     filtered_out_simple q r = Inr False \<and> score_simple qi r = Inr (Some s)"
  by (auto simp: score_recipe_simple_def split: sum.splits if_splits)









section \<open>C6: recipes without ingredients\<close>




section \<open>Python sets as sets\<close>

lemma set_normalized_set: "set (normalized_set xs) = (\<lambda>i. strip (lower i)) ` set xs"
  by (simp add: normalized_set_def py_set_def)

lemma distinct_normalized_set: "distinct (normalized_set xs)"
  by (simp add: normalized_set_def py_set_def)

lemma length_intersection: "distinct a \<Longrightarrow> length (intersection a b) = card (set a \<inter> set b)"
  by (simp add: intersection_def distinct_length_filter Int_commute)

lemma length_distinct_card: "distinct a \<Longrightarrow> length a = card (set a)"
  by (simp add: distinct_card)

text \<open>The scoring step on a non-empty recipe set and a non-empty query set, in terms of sets.\<close>

lemma score_simple_sets:
  assumes d: "distinct qi" "qi \<noteq> []" and r: "get_ingredients r \<noteq> []"
  shows "score_simple qi r =
     (let R = set (normalized_set (get_ingredients r)); Q = set qi; n = card (R \<inter> Q)
      in if n = 0 then Inr None
         else Inr (Some (recipe_copy_simple r (normalized_set (get_ingredients r)) qi
                (rat_of_nat n / rat_of_nat (card R) * (6 / 10)
                  + rat_of_nat n / rat_of_nat (card Q) * (4 / 10))
                (rat_of_nat n / rat_of_nat (card R)))))"
proof -
  let ?ri = "normalized_set (get_ingredients r)"
  have ne: "?ri \<noteq> []" using r by simp
  have a: "length (intersection ?ri qi) = card (set ?ri \<inter> set qi)"
    by (simp add: length_intersection distinct_normalized_set)
  have b: "length (intersection qi ?ri) = card (set ?ri \<inter> set qi)"
    using d by (simp add: length_intersection Int_commute)
  have c: "length ?ri = card (set ?ri)" "length qi = card (set qi)"
    using d by (simp_all add: length_distinct_card distinct_normalized_set)
  have pos: "card (set ?ri) \<noteq> 0" "card (set qi) \<noteq> 0"
    using ne d by (simp_all add: card_eq_0_iff)
  show ?thesis
    unfolding score_simple_def Let_def a b c py_div_def
    using pos ne by (simp add: c)
qed


lemma set_normalized_name_set: "set (normalized_set xs) = name_set xs"
  by (simp add: set_normalized_set name_set_def)

lemma score_recipe_simple_spec:
  assumes q: "ingredients_arg q \<noteq> []" and f: "filtered_out_simple q r = Inr False"
    and r: "get_ingredients r \<noteq> []"
  shows "if name_set (get_ingredients r) \<inter> name_set (ingredients_arg q) = {}
         then score_recipe_simple (normalized_set (ingredients_arg q)) q r = Inr None
         else \<exists>s. score_recipe_simple (normalized_set (ingredients_arg q)) q r = Inr (Some s)
                \<and> recipe s = r
                \<and> match_score s
                    = round1 (spec_gated_score (name_set (get_ingredients r))
                                (name_set (ingredients_arg q)) * 100)"
proof -
  let ?qi = "normalized_set (ingredients_arg q)"
  have fin: "finite (name_set (get_ingredients r) \<inter> name_set (ingredients_arg q))"
    by (simp add: name_set_def)
  have "score_recipe_simple ?qi q r = score_simple ?qi r"
    using f by (simp add: score_recipe_simple_def)
  also have "\<dots> = (let R = set (normalized_set (get_ingredients r)); Q = set ?qi;
                         n = card (R \<inter> Q)
      in if n = 0 then Inr None
         else Inr (Some (recipe_copy_simple r (normalized_set (get_ingredients r)) ?qi
                (rat_of_nat n / rat_of_nat (card R) * (6 / 10)
                  + rat_of_nat n / rat_of_nat (card Q) * (4 / 10))
                (rat_of_nat n / rat_of_nat (card R)))))"
    using q by (intro score_simple_sets distinct_normalized_set r) simp
  finally show ?thesis
    using fin
    by (auto simp: Let_def set_normalized_name_set recipe_copy_simple_def spec_gated_score_def
          algebra_simps)
qed

section \<open>C2: the direct-match-gated score\<close>

text \<open>
  C2: under the direct-match-gated policy (app_working.py), a candidate that survives the
  filters and has a non-empty ingredient list gets the final score
  \<open>0.6 * |R \<inter> Q| / |R| + 0.4 * |R \<inter> Q| / |Q|\<close> over the lower-cased, trimmed sets \<open>R\<close> of
  its ingredients and \<open>Q\<close> of the query (stored, times 100 and rounded, as \<^verbatim>\<open>match_score\<close>),
  and a candidate with no direct match is excluded. So every result of
  \<^verbatim>\<open>get_recommendations\<close> is a recipe of the corpus with a direct match and that score, and a
  query of one ingredient that occurs in no recipe has no result.
\<close>

theorem gated_scoring:
  assumes "ingredients_arg q \<noteq> []"
  shows "(filtered_out_simple q r = Inr False \<and> get_ingredients r \<noteq> [] \<longrightarrow>
           (if name_set (get_ingredients r) \<inter> name_set (ingredients_arg q) = {}
            then score_recipe_simple (normalized_set (ingredients_arg q)) q r = Inr None
            else \<exists>s. score_recipe_simple (normalized_set (ingredients_arg q)) q r = Inr (Some s)
                   \<and> recipe s = r
                   \<and> match_score s
                       = round1 (spec_gated_score (name_set (get_ingredients r))
                                   (name_set (ingredients_arg q)) * 100)))
       \<and> (\<forall>s\<in>set (get_recommendations_simple rs q).
             recipe s \<in> set rs
             \<and> name_set (get_ingredients (recipe s)) \<inter> name_set (ingredients_arg q) \<noteq> {}
             \<and> match_score s
                 = round1 (spec_gated_score (name_set (get_ingredients (recipe s)))
                             (name_set (ingredients_arg q)) * 100))
       \<and> ((\<forall>c\<in>set rs. strip (lower x) \<notin> name_set (get_ingredients c)) \<longrightarrow>
             get_recommendations_simple rs (q\<lparr>ingredients_arg := [x]\<rparr>) = [])"
proof (intro conjI impI ballI)
  assume "filtered_out_simple q r = Inr False \<and> get_ingredients r \<noteq> []"
  with assms show "if name_set (get_ingredients r) \<inter> name_set (ingredients_arg q) = {}
            then score_recipe_simple (normalized_set (ingredients_arg q)) q r = Inr None
            else \<exists>s. score_recipe_simple (normalized_set (ingredients_arg q)) q r = Inr (Some s)
                   \<and> recipe s = r
                   \<and> match_score s
                       = round1 (spec_gated_score (name_set (get_ingredients r))
                                   (name_set (ingredients_arg q)) * 100)"
    using score_recipe_simple_spec [of q r] by blast
next
  fix s assume s: "s \<in> set (get_recommendations_simple rs q)"
  from in_get_recommendations_simple [OF s] obtain c where
    c: "c \<in> set rs" "score_recipe_simple (normalized_set (ingredients_arg q)) q c = Inr (Some s)"
    by blast
  from c(2) have f: "filtered_out_simple q c = Inr False"
    and sc: "recipe s = c" "get_ingredients c \<noteq> []"
    by (auto dest!: score_recipe_simple_SomeD score_simple_SomeD)
  from score_recipe_simple_spec [OF assms f sc(2)] c(2)
  have "name_set (get_ingredients c) \<inter> name_set (ingredients_arg q) \<noteq> {}
        \<and> match_score s = round1 (spec_gated_score (name_set (get_ingredients c))
                                    (name_set (ingredients_arg q)) * 100)"
    by (auto split: if_splits)
  with c(1) sc(1)
  show "recipe s \<in> set rs"
    and "name_set (get_ingredients (recipe s)) \<inter> name_set (ingredients_arg q) \<noteq> {}"
    and "match_score s
                 = round1 (spec_gated_score (name_set (get_ingredients (recipe s)))
                             (name_set (ingredients_arg q)) * 100)"
    by simp_all
next
  assume none: "\<forall>c\<in>set rs. strip (lower x) \<notin> name_set (get_ingredients c)"
  let ?q = "q\<lparr>ingredients_arg := [x]\<rparr>"
  show "get_recommendations_simple rs ?q = []"
  proof (rule ccontr)
    assume "get_recommendations_simple rs ?q \<noteq> []"
    then obtain s where s: "s \<in> set (get_recommendations_simple rs ?q)"
      by (cases "get_recommendations_simple rs ?q") auto
    from in_get_recommendations_simple [OF s] obtain c where
      c: "c \<in> set rs" "score_recipe_simple (normalized_set (ingredients_arg ?q)) ?q c = Inr (Some s)"
      by blast
    from c(2) have f: "filtered_out_simple ?q c = Inr False" and ne: "get_ingredients c \<noteq> []"
      by (auto dest!: score_recipe_simple_SomeD score_simple_SomeD)
    have "ingredients_arg ?q \<noteq> []" by simp
    from score_recipe_simple_spec [OF this f ne] c(2)
    have "name_set (get_ingredients c) \<inter> name_set (ingredients_arg ?q) \<noteq> {}"
      by (auto split: if_splits)
    with none c(1) show False by (auto simp: name_set_def)
  qed
qed

theorem gated_scoring_witness:
  "ingredients_arg rice_garlic \<noteq> []
   \<and> filtered_out_simple rice_garlic recipe_2 = Inr False
   \<and> get_ingredients recipe_2 \<noteq> []
   \<and> name_set (get_ingredients recipe_2) \<inter> name_set (ingredients_arg rice_garlic) \<noteq> {}
   \<and> match_score (the (projr (score_recipe_simple (normalized_set (ingredients_arg rice_garlic))
                                  rice_garlic recipe_2))) = 80
   \<and> strip (lower ''saffron'') \<notin> name_set (get_ingredients recipe_1)
   \<and> strip (lower ''saffron'') \<notin> name_set (get_ingredients recipe_2)
   \<and> get_recommendations_simple [recipe_1, recipe_2] (rice_garlic\<lparr>ingredients_arg := [''saffron'']\<rparr>) = []"
proof -
  have h: "ingredients_arg rice_garlic \<noteq> []" by code_simp
  have f: "filtered_out_simple rice_garlic recipe_2 = Inr False" by code_simp
  have g: "get_ingredients recipe_2 \<noteq> []" by code_simp
  have n: "name_set (get_ingredients recipe_2) \<inter> name_set (ingredients_arg rice_garlic) \<noteq> {}"
    by code_simp
  have v: "round1 (spec_gated_score (name_set (get_ingredients recipe_2))
                     (name_set (ingredients_arg rice_garlic)) * 100) = 80"
    by code_simp
  have a1: "strip (lower ''saffron'') \<notin> name_set (get_ingredients recipe_1)" by code_simp
  have a2: "strip (lower ''saffron'') \<notin> name_set (get_ingredients recipe_2)" by code_simp
  note inst = gated_scoring [OF h, of recipe_2 "[recipe_1, recipe_2]" "''saffron''"]
  from inst f g n v
  have m: "match_score (the (projr (score_recipe_simple (normalized_set (ingredients_arg rice_garlic))
                                  rice_garlic recipe_2))) = 80"
    by auto
  from inst a1 a2
  have e: "get_recommendations_simple [recipe_1, recipe_2]
             (rice_garlic\<lparr>ingredients_arg := [''saffron'']\<rparr>) = []"
    by simp
  from h f g n m a1 a2 e show ?thesis by simp
qed

section \<open>Score ranges and ranking\<close>

lemma round1_nonneg: "0 \<le> x \<Longrightarrow> 0 \<le> round1 x"
proof -
  assume "0 \<le> x"
  then have "0 \<le> \<lfloor>x * 10\<rfloor>" by simp
  then show ?thesis by (simp add: round1_def Let_def)
qed

lemma round1_le_100: "x \<le> 100 \<Longrightarrow> round1 x \<le> 100"
proof -
  assume x: "x \<le> 100"
  define y where "y = x * 10"
  define f where "f = \<lfloor>y\<rfloor>"
  from x have y: "y \<le> 1000" by (simp add: y_def)
  then have f: "f \<le> 1000" unfolding f_def by (simp add: floor_le_iff)
  have "f + 1 \<le> 1000 \<or> y - rat_of_int f < 1 / 2"
  proof (cases "f = 1000")
    case True
    with y have "y = 1000" unfolding f_def by linarith
    with True show ?thesis by simp
  next
    case False
    with f show ?thesis by simp
  qed
  then have "(if y - rat_of_int f < 1 / 2 then f else if 1 / 2 < y - rat_of_int f then f + 1
              else if even f then f else f + 1) \<le> 1000"
    using f by auto
  then have "rat_of_int (if y - rat_of_int f < 1 / 2 then f else if 1 / 2 < y - rat_of_int f then f + 1
              else if even f then f else f + 1) \<le> 1000"
    by linarith
  moreover have "round1 x = rat_of_int (if y - rat_of_int f < 1 / 2 then f
              else if 1 / 2 < y - rat_of_int f then f + 1
              else if even f then f else f + 1) / 10"
    by (simp only: round1_def Let_def y_def f_def)
  ultimately show ?thesis
    by (simp only: divide_le_eq) simp
qed

lemma ratio_range:
  "a \<le> b \<Longrightarrow> 0 \<le> rat_of_nat a / rat_of_nat b \<and> rat_of_nat a / rat_of_nat b \<le> 1"
  by (cases "b = 0") (simp_all add: divide_le_eq_1)

lemma length_intersection_le: "length (intersection a b) \<le> length a"
  by (simp add: intersection_def)

lemma py_div_range:
  "py_div a b = Inr x \<Longrightarrow> a \<le> b \<Longrightarrow> 0 \<le> x \<and> x \<le> 1"
  using ratio_range [of a b] by (auto simp: py_div_def split: if_splits)

lemma blend2_range:
  fixes a c :: rat
  assumes "0 \<le> a" "a \<le> 1" "0 \<le> c" "c \<le> 1"
  shows "0 \<le> (a * (6 / 10) + c * (4 / 10)) * 100" "(a * (6 / 10) + c * (4 / 10)) * 100 \<le> 100"
  using assms by simp_all

lemma blend3_range:
  fixes m a c :: rat
  assumes "0 \<le> m" "m \<le> 1" "0 \<le> a" "a \<le> 1" "0 \<le> c" "c \<le> 1"
  shows "0 \<le> (m * (4 / 10) + a * (4 / 10) + c * (2 / 10)) * 100"
        "(m * (4 / 10) + a * (4 / 10) + c * (2 / 10)) * 100 \<le> 100"
  using assms by simp_all

lemma score_simple_range:
  assumes "score_simple qi r = Inr (Some s)"
  shows "0 \<le> match_score s \<and> match_score s \<le> 100"
proof -
  let ?ri = "normalized_set (get_ingredients r)"
  from assms obtain a c where
    a: "py_div (length (intersection ?ri qi)) (length ?ri) = Inr a"
    and c: "py_div (length (intersection qi ?ri)) (length qi) = Inr c"
    and s: "match_score s = round1 ((a * (6 / 10) + c * (4 / 10)) * 100)"
    by (auto simp: score_simple_def Let_def recipe_copy_simple_def split: if_splits sum.splits)
  from py_div_range [OF a length_intersection_le] py_div_range [OF c length_intersection_le]
  show ?thesis
    unfolding s by (intro conjI round1_nonneg round1_le_100 blend2_range) simp_all
qed

lemma score_engine_range:
  assumes "score_engine ml ings r = Inr s" "0 \<le> ml" "ml \<le> 1"
  shows "0 \<le> match_score s \<and> match_score s \<le> 100"
proof -
  let ?ri = "py_set (map lower (get_ingredients r))"
  let ?qi = "py_set (map lower ings)"
  from assms(1) obtain a c where
    a: "(if ?ri \<noteq> [] then py_div (length (intersection ?ri ?qi)) (length ?ri) else Inr 0) = Inr a"
    and c: "(if ?qi \<noteq> [] then py_div (length (intersection ?qi ?ri)) (length ?qi) else Inr 0) = Inr c"
    and s: "match_score s = round1 ((ml * (4 / 10) + a * (4 / 10) + c * (2 / 10)) * 100)"
    by (auto simp: score_engine_def Let_def recipe_copy_engine_def split: sum.splits)
  from a have ar: "0 \<le> a \<and> a \<le> 1"
    using py_div_range [OF _ length_intersection_le, of ?ri ?qi a] by (auto split: if_splits)
  from c have cr: "0 \<le> c \<and> c \<le> 1"
    using py_div_range [OF _ length_intersection_le, of ?qi ?ri c] by (auto split: if_splits)
  from ar cr assms(2,3) show ?thesis
    unfolding s by (intro conjI round1_nonneg round1_le_100 blend3_range) simp_all
qed


lemma sorted_sort_reverse: "sorted_wrt (\<lambda>a b. k b \<le> k a) (sort_reverse k xs)"
proof -
  have "sorted (map (\<lambda>x. - k x) (sort_key (\<lambda>x. - k x) xs))"
    by (rule sorted_sort_key)
  then show ?thesis
    by (simp add: sort_reverse_def sorted_wrt_map)
qed

lemma sorted_slice_to: "sorted_wrt R xs \<Longrightarrow> sorted_wrt R (slice_to n xs)"
  by (simp add: slice_to_def)

lemma sort_reverse_stable:
  "filter (\<lambda>x. k x = v) (sort_reverse k xs) = filter (\<lambda>x. k x = v) xs"
  using sort_key_stable [of "\<lambda>x. - k x" "- v" xs] by (simp add: sort_reverse_def)

lemma prefix_slice_to: "prefix (slice_to n xs) xs"
  by (simp add: slice_to_def take_is_prefix)

text \<open>What the sort and the slice keep of the order of the list they are given.\<close>

lemma ranked_order:
  "subseq (filter (\<lambda>x. k x = v) (slice_to n (sort_reverse k xs))) xs"
proof -
  have "prefix (filter (\<lambda>x. k x = v) (slice_to n (sort_reverse k xs)))
               (filter (\<lambda>x. k x = v) (sort_reverse k xs))"
    by (intro filter_mono_prefix prefix_slice_to)
  then have "subseq (filter (\<lambda>x. k x = v) (slice_to n (sort_reverse k xs)))
                    (filter (\<lambda>x. k x = v) xs)"
    by (simp add: sort_reverse_stable prefix_imp_subseq)
  also have "subseq (filter (\<lambda>x. k x = v) xs) xs" by simp
  finally show ?thesis .
qed

lemma ranked_sorted:
  "sorted_wrt (\<lambda>a b. b \<le> a) (map k (slice_to n (sort_reverse k xs)))"
  by (simp add: sorted_wrt_map sorted_slice_to sorted_sort_reverse)

lemma score_recipe_engine_SomeD:
  "score_recipe_engine sims all q r = Inr (Some s) \<Longrightarrow>
     \<exists>i. score_engine (sims i) (ingredients_arg q) r = Inr s"
  by (auto simp: score_recipe_engine_def split: sum.splits option.splits if_splits)

lemma score_engine_recipe: "score_engine ml ings r = Inr s \<Longrightarrow> recipe s = r"
  by (auto simp: score_engine_def Let_def recipe_copy_engine_def split: sum.splits)

lemma subseq_recommendations_simple:
  "subseq (map recipe (recommendations_simple qi q rs)) rs"
proof (induction rs)
  case Nil
  show ?case by simp
next
  case (Cons r rs)
  show ?case
  proof (cases "score_recipe_simple qi q r")
    case (Inl e)
    with Cons show ?thesis by (simp add: list_emb_Cons)
  next
    case (Inr o1)
    show ?thesis
    proof (cases o1)
      case None
      with Inr Cons show ?thesis by (simp add: list_emb_Cons)
    next
      case (Some s)
      with Inr have "recipe s = r"
        by (auto dest!: score_recipe_simple_SomeD score_simple_SomeD)
      with Some Inr Cons show ?thesis by simp
    qed
  qed
qed

lemma subseq_recommendations_engine:
  "recommendations_engine sims all q cs = Inr ss \<Longrightarrow> subseq (map recipe ss) cs"
proof (induction cs arbitrary: ss)
  case Nil
  then show ?case by simp
next
  case (Cons r cs)
  show ?case
  proof (cases "score_recipe_engine sims all q r")
    case (Inl e)
    with Cons.prems show ?thesis by simp
  next
    case (Inr o1)
    show ?thesis
    proof (cases o1)
      case None
      with Inr Cons show ?thesis by (simp add: list_emb_Cons)
    next
      case (Some s)
      with Inr have rs: "recipe s = r"
        by (auto dest!: score_recipe_engine_SomeD score_engine_recipe)
      from Some Inr Cons.prems obtain ss' where
        "recommendations_engine sims all q cs = Inr ss'" "ss = s # ss'"
        by (auto split: sum.splits)
      with Cons.IH rs show ?thesis by simp
    qed
  qed
qed

lemma subseq_candidates:
  "subseq (if rr \<noteq> [] then filter_by_dietary_restrictions rs rr else rs) rs"
  by (simp add: filter_by_dietary_restrictions_def)


lemma ranked_corpus_order:
  assumes "subseq (map recipe cand) rs"
  shows "subseq (map recipe (filter (\<lambda>s. match_score s = v)
                   (slice_to n (sort_reverse match_score cand)))) rs"
proof -
  have "subseq (map recipe (filter (\<lambda>s. match_score s = v)
                   (slice_to n (sort_reverse match_score cand)))) (map recipe cand)"
    by (intro subseq_map ranked_order)
  also note assms
  finally show ?thesis .
qed

lemma ranking_simple:
  assumes "0 \<le> limit q"
  shows "length (get_recommendations_simple rs q) \<le> nat (limit q)"
    and "\<forall>s\<in>set (get_recommendations_simple rs q). 0 \<le> match_score s \<and> match_score s \<le> 100"
    and "sorted_wrt (\<lambda>a b. b \<le> a) (map match_score (get_recommendations_simple rs q))"
    and "subseq (map recipe (filter (\<lambda>s. match_score s = v) (get_recommendations_simple rs q))) rs"
proof -
  show "length (get_recommendations_simple rs q) \<le> nat (limit q)"
    using assms by (simp add: get_recommendations_simple_def Let_def length_slice_to)
  show "\<forall>s\<in>set (get_recommendations_simple rs q). 0 \<le> match_score s \<and> match_score s \<le> 100"
  proof
    fix s assume "s \<in> set (get_recommendations_simple rs q)"
    from in_get_recommendations_simple [OF this] obtain r where
      "score_recipe_simple (normalized_set (ingredients_arg q)) q r = Inr (Some s)" by blast
    then have "score_simple (normalized_set (ingredients_arg q)) r = Inr (Some s)"
      by (auto dest: score_recipe_simple_SomeD)
    then show "0 \<le> match_score s \<and> match_score s \<le> 100" by (rule score_simple_range)
  qed
  show "sorted_wrt (\<lambda>a b. b \<le> a) (map match_score (get_recommendations_simple rs q))"
    by (simp add: get_recommendations_simple_def Let_def ranked_sorted)
  show "subseq (map recipe (filter (\<lambda>s. match_score s = v) (get_recommendations_simple rs q))) rs"
    by (simp add: get_recommendations_simple_def Let_def ranked_corpus_order
          subseq_recommendations_simple)
qed

lemma ranking_engine:
  assumes "0 \<le> limit q"
    and res: "get_recommendations_engine e q = Inr res"
    and range: "\<forall>m t i. recipe_vectors e = Some m \<longrightarrow>
                  0 \<le> similarity m t i \<and> similarity m t i \<le> 1"
  shows "length res \<le> nat (limit q)"
    and "\<forall>s\<in>set res. 0 \<le> match_score s \<and> match_score s \<le> 100"
    and "sorted_wrt (\<lambda>a b. b \<le> a) (map match_score res)"
    and "subseq (map recipe (filter (\<lambda>s. match_score s = v) res)) (recipes e)"
proof -
  define cs where "cs = (if dietary_restrictions q \<noteq> []
       then filter_by_dietary_restrictions (recipes e) (dietary_restrictions q) else recipes e)"
  have shape: "res = [] \<or> (\<exists>sims recs.
      recommendations_engine sims (recipes e) q cs = Inr recs
      \<and> res = slice_to (limit q) (sort_reverse match_score recs))"
  proof -
    from get_recommendations_engine_InrD [OF res]
    have "res = [] \<or> (\<exists>m. rank_engine e m q = Inr res)" by blast
    then show ?thesis
    proof
      assume "res = []" then show ?thesis by simp
    next
      assume "\<exists>m. rank_engine e m q = Inr res"
      then obtain m where "rank_engine e m q = Inr res" by blast
      from rank_engine_InrD [OF this] show ?thesis unfolding cs_def by blast
    qed
  qed
  show "\<forall>s\<in>set res. 0 \<le> match_score s \<and> match_score s \<le> 100"
  proof
    fix s assume "s \<in> set res"
    from in_get_recommendations_engine [OF res this] obtain m :: matrix and r where
      v: "recipe_vectors e = Some m"
      and "score_recipe_engine (similarity m (query_text q)) (recipes e) q r = Inr (Some s)"
      by blast
    then obtain i where "score_engine (similarity m (query_text q) i) (ingredients_arg q) r = Inr s"
      by (auto dest: score_recipe_engine_SomeD)
    moreover from range v
    have "0 \<le> similarity m (query_text q) i" "similarity m (query_text q) i \<le> 1"
      by auto
    ultimately show "0 \<le> match_score s \<and> match_score s \<le> 100"
      by (rule score_engine_range)
  qed
  from shape show "length res \<le> nat (limit q)"
    using assms(1) by (auto simp: length_slice_to)
  from shape show "sorted_wrt (\<lambda>a b. b \<le> a) (map match_score res)"
    by (auto simp: ranked_sorted)
  from shape show "subseq (map recipe (filter (\<lambda>s. match_score s = v) res)) (recipes e)"
  proof
    assume "res = []" then show ?thesis by simp
  next
    assume "\<exists>sims recs.
      recommendations_engine sims (recipes e) q cs = Inr recs
      \<and> res = slice_to (limit q) (sort_reverse match_score recs)"
    then obtain sims recs where
      recs: "recommendations_engine sims (recipes e) q cs = Inr recs"
      and r: "res = slice_to (limit q) (sort_reverse match_score recs)" by blast
    have "subseq (map recipe recs) cs" using recs by (rule subseq_recommendations_engine)
    also have "subseq cs (recipes e)" unfolding cs_def by (rule subseq_candidates)
    finally show ?thesis unfolding r by (rule ranked_corpus_order)
  qed
qed

section \<open>C3: the ranking invariant\<close>

text \<open>
  C3: for every query with a non-negative limit, the list returned by either engine has at
  most \<^verbatim>\<open>limit\<close> entries, every \<^verbatim>\<open>match_score\<close> lies between 0 and 100, the scores do not
  increase along the list, and entries of equal score keep the order of the corpus: for each
  score, the recipes of the entries with that score, in the order returned, are a subsequence
  of the corpus. For the ML-blended engine the statement is about a call that returns, with
  the similarities of scikit-learn between 0 and 1; such a call returns for an empty corpus
  and for a matrix of shape (1, 1) only.
\<close>

theorem ranked_results:
  assumes "0 \<le> limit q"
  shows "(length (get_recommendations_simple rs q) \<le> nat (limit q)
          \<and> (\<forall>s\<in>set (get_recommendations_simple rs q). 0 \<le> match_score s \<and> match_score s \<le> 100)
          \<and> sorted_wrt (\<lambda>a b. b \<le> a) (map match_score (get_recommendations_simple rs q))
          \<and> (\<forall>v. subseq (map recipe (filter (\<lambda>s. match_score s = v)
                                          (get_recommendations_simple rs q))) rs))
       \<and> (get_recommendations_engine e q = Inr res
            \<and> (\<forall>m t i. recipe_vectors e = Some m \<longrightarrow>
                   0 \<le> similarity m t i \<and> similarity m t i \<le> 1) \<longrightarrow>
           length res \<le> nat (limit q)
           \<and> (\<forall>s\<in>set res. 0 \<le> match_score s \<and> match_score s \<le> 100)
           \<and> sorted_wrt (\<lambda>a b. b \<le> a) (map match_score res)
           \<and> (\<forall>v. subseq (map recipe (filter (\<lambda>s. match_score s = v) res)) (recipes e)))"
proof (intro conjI impI allI)
  assume "get_recommendations_engine e q = Inr res
            \<and> (\<forall>m t i. recipe_vectors e = Some m \<longrightarrow>
                   0 \<le> similarity m t i \<and> similarity m t i \<le> 1)"
  then have res: "get_recommendations_engine e q = Inr res"
    and range: "\<forall>m t i. recipe_vectors e = Some m \<longrightarrow>
                   0 \<le> similarity m t i \<and> similarity m t i \<le> 1"
    by blast+
  show "length res \<le> nat (limit q)"
    and "\<forall>s\<in>set res. 0 \<le> match_score s \<and> match_score s \<le> 100"
    and "sorted_wrt (\<lambda>a b. b \<le> a) (map match_score res)"
    and "\<And>v. subseq (map recipe (filter (\<lambda>s. match_score s = v) res)) (recipes e)"
    by (rule ranking_engine [OF assms res range])+
qed (rule ranking_simple [OF assms])+

theorem ranked_results_witness:
  "0 \<le> limit (rice_garlic\<lparr>limit := 1\<rparr>)
   \<and> length (get_recommendations_simple [recipe_1, recipe_2] (rice_garlic\<lparr>limit := 1\<rparr>))
        \<le> nat (limit (rice_garlic\<lparr>limit := 1\<rparr>))
   \<and> sorted_wrt (\<lambda>a b. b \<le> a)
        (map match_score (get_recommendations_simple [recipe_1, recipe_2] (rice_garlic\<lparr>limit := 1\<rparr>)))
   \<and> get_recommendations_simple [recipe_1, recipe_2] (rice_garlic\<lparr>limit := 1\<rparr>) \<noteq> []
   \<and> match_score (hd (get_recommendations_simple [recipe_1, recipe_2] (rice_garlic\<lparr>limit := 1\<rparr>)))
        \<le> 100
   \<and> map recipe_id (map recipe (get_recommendations_simple [recipe_1, recipe_2] rice_garlic))
        = [Some 1, Some 2]
   \<and> map match_score (projr (get_recommendations_engine engine_rice (rice_garlic\<lparr>limit := 1\<rparr>)))
        = [90]
   \<and> length (projr (get_recommendations_engine engine_rice (rice_garlic\<lparr>limit := 1\<rparr>)))
        \<le> nat (limit (rice_garlic\<lparr>limit := 1\<rparr>))
   \<and> match_score (hd (projr (get_recommendations_engine engine_rice (rice_garlic\<lparr>limit := 1\<rparr>))))
        \<le> 100"
proof -
  let ?q = "rice_garlic\<lparr>limit := 1\<rparr>"
  have h: "0 \<le> limit ?q" by (simp add: rice_garlic_def)
  have ne: "get_recommendations_simple [recipe_1, recipe_2] ?q \<noteq> []" by code_simp
  then have mem: "hd (get_recommendations_simple [recipe_1, recipe_2] ?q)
                    \<in> set (get_recommendations_simple [recipe_1, recipe_2] ?q)"
    by (rule hd_in_set)
  have tie: "map recipe_id (map recipe (get_recommendations_simple [recipe_1, recipe_2] rice_garlic))
        = [Some 1, Some 2]" by code_simp
  have r: "get_recommendations_engine engine_rice ?q
             = Inr (projr (get_recommendations_engine engine_rice ?q))"
    by code_simp
  have sc: "map match_score (projr (get_recommendations_engine engine_rice ?q)) = [90]"
    by code_simp
  then have "projr (get_recommendations_engine engine_rice ?q) \<noteq> []" by auto
  then have emem: "hd (projr (get_recommendations_engine engine_rice ?q))
                    \<in> set (projr (get_recommendations_engine engine_rice ?q))"
    by (rule hd_in_set)
  have z: "\<forall>m t i. recipe_vectors engine_rice = Some m \<longrightarrow>
             0 \<le> similarity m t i \<and> similarity m t i \<le> 1"
    by (simp add: engine_rice_def single_term_def)
  note inst = ranked_results [OF h, of "[recipe_1, recipe_2]" engine_rice
      "projr (get_recommendations_engine engine_rice ?q)"]
  from inst have a: "length (get_recommendations_simple [recipe_1, recipe_2] ?q) \<le> nat (limit ?q)"
    by blast
  from inst have b: "sorted_wrt (\<lambda>a b. b \<le> a)
        (map match_score (get_recommendations_simple [recipe_1, recipe_2] ?q))"
    by blast
  from inst mem have c: "match_score (hd (get_recommendations_simple [recipe_1, recipe_2] ?q)) \<le> 100"
    by blast
  from inst r z have d: "length (projr (get_recommendations_engine engine_rice ?q)) \<le> nat (limit ?q)"
    by blast
  from inst r z emem
  have f: "match_score (hd (projr (get_recommendations_engine engine_rice ?q))) \<le> 100"
    by blast
  from h a b ne c tie sc d f show ?thesis by blast
qed

section \<open>C8: malformed records\<close>

lemma recommendations_simple_append:
  "recommendations_simple qi q (xs @ ys)
     = recommendations_simple qi q xs @ recommendations_simple qi q ys"
  by (induction xs) (auto split: sum.splits option.splits)

lemma recommendations_simple_skip:
  assumes "score_recipe_simple qi q bad = Inl e \<or> score_recipe_simple qi q bad = Inr None"
  shows "recommendations_simple qi q (xs @ bad # ys) = recommendations_simple qi q (xs @ ys)"
  using assms by (auto simp: recommendations_simple_append)

lemma get_recommendations_simple_skip:
  assumes "score_recipe_simple (normalized_set (ingredients_arg q)) q bad = Inl e
           \<or> score_recipe_simple (normalized_set (ingredients_arg q)) q bad = Inr None"
  shows "get_recommendations_simple (xs @ bad # ys) q = get_recommendations_simple (xs @ ys) q"
  using recommendations_simple_skip [OF assms]
  by (simp add: get_recommendations_simple_def Let_def)

lemma score_recipe_simple_no_ingredients:
  assumes "get_ingredients bad = []"
  shows "(\<exists>e. score_recipe_simple qi q bad = Inl e) \<or> score_recipe_simple qi q bad = Inr None"
  using assms
  by (cases "filtered_out_simple q bad") (auto simp: score_recipe_simple_def score_simple_empty)

lemma exceeds_cooking_time_id_name:
  "exceeds_cooking_time mct (r\<lparr>recipe_id := i, name := n\<rparr>) = exceeds_cooking_time mct r"
  by (simp add: exceeds_cooking_time_def get_cooking_time_def split: option.splits)

lemma filtered_out_simple_id_name:
  "filtered_out_simple q (r\<lparr>recipe_id := i, name := n\<rparr>) = filtered_out_simple q r"
  by (simp add: filtered_out_simple_def exceeds_cooking_time_id_name split: sum.splits)

lemma score_simple_id_name:
  "score_simple qi (r\<lparr>recipe_id := i, name := n\<rparr>)
     = map_sum id (map_option (\<lambda>s. s\<lparr>recipe := r\<lparr>recipe_id := i, name := n\<rparr>\<rparr>)) (score_simple qi r)"
  by (simp add: score_simple_def get_ingredients_def Let_def recipe_copy_simple_def
        split: sum.splits)

lemma score_recipe_simple_id_name:
  "score_recipe_simple qi q (r\<lparr>recipe_id := i, name := n\<rparr>)
     = map_sum id (map_option (\<lambda>s. s\<lparr>recipe := r\<lparr>recipe_id := i, name := n\<rparr>\<rparr>))
         (score_recipe_simple qi q r)"
  by (simp add: score_recipe_simple_def filtered_out_simple_id_name score_simple_id_name
        split: sum.splits)

lemma recommendations_entries_Object:
  "recommendations_entries qi q (map Object rs) = Inr (recommendations_simple qi q rs)"
  by (induction rs)
     (auto simp: score_entry_simple_def logged_name_def split: sum.splits option.splits)

lemma get_recommendations_entries_Object:
  "get_recommendations_entries (map Object rs) q = get_recommendations_simple rs q"
  by (simp add: get_recommendations_entries_def get_recommendations_simple_def Let_def
        recommendations_entries_Object)

lemma recommendations_entries_Not_object:
  "Not_object \<in> set es \<Longrightarrow> recommendations_entries qi q es = Inl AttributeError"
proof (induction es)
  case Nil
  then show ?case by simp
next
  case (Cons x es)
  show ?case
  proof (cases x)
    case Not_object
    then show ?thesis by (simp add: score_entry_simple_def logged_name_def)
  next
    case (Object r)
    with Cons have "recommendations_entries qi q es = Inl AttributeError" by simp
    with Object show ?thesis
      by (simp add: score_entry_simple_def logged_name_def split: sum.splits option.splits)
  qed
qed

text \<open>
  C8, as the specification states it: with one malformed record in the corpus (one that
  lacks expected fields such as \<^verbatim>\<open>id\<close> or \<^verbatim>\<open>name\<close>), \<^verbatim>\<open>get_recommendations\<close> skips that record
  and still scores the others, and a failure of the whole call gives the empty list.
  In app_working.py a record without \<^verbatim>\<open>id\<close> and \<^verbatim>\<open>name\<close> is not skipped: no field is
  required there, and the record is returned when it matches. In app.py a record without
  \<^verbatim>\<open>id\<close> makes \<^verbatim>\<open>r['id'] == recipe['id']\<close> raise \<^verbatim>\<open>KeyError\<close>, which nothing catches: so
  on the corpus of the one recipe of plain rice, stored without its \<^verbatim>\<open>id\<close>.
\<close>

theorem malformed_records_counterexample:
  "get_recommendations_simple [recipe_2\<lparr>recipe_id := None, name := None\<rparr>] rice_garlic \<noteq> []
   \<and> get_recommendations_engine
        \<lparr>recipes = [rice_only\<lparr>recipe_id := None\<rparr>], recipe_vectors = Some (single_term ''rice'')\<rparr>
        rice_garlic = Inl KeyError"
  by code_simp

text \<open>
  C8, amended, for \<^verbatim>\<open>SimpleRecipeRecommender.get_recommendations\<close> (app_working.py):
  a record whose processing raises (here: dietary restrictions are requested and
  \<^verbatim>\<open>dietary_info\<close> is a tag list) or that has no ingredients is skipped, and the result is
  the one for the corpus without it; a record that lacks \<^verbatim>\<open>id\<close> or \<^verbatim>\<open>name\<close> is scored like
  any other, its outcome being that of the complete record up to the copied recipe; and
  a corpus entry that is not an object makes the whole call return the empty list, never
  a partial ranking.
\<close>

theorem malformed_records:
  "(score_recipe_simple (normalized_set (ingredients_arg q)) q bad = Inl err
      \<or> get_ingredients bad = [] \<longrightarrow>
      get_recommendations_simple (xs @ bad # ys) q = get_recommendations_simple (xs @ ys) q)
   \<and> score_recipe_simple qi q (r\<lparr>recipe_id := i, name := n\<rparr>)
       = map_sum id (map_option (\<lambda>s. s\<lparr>recipe := r\<lparr>recipe_id := i, name := n\<rparr>\<rparr>))
           (score_recipe_simple qi q r)
   \<and> get_recommendations_entries (map Object xs) q = get_recommendations_simple xs q
   \<and> (Not_object \<in> set es \<longrightarrow> get_recommendations_entries es q = [])"
proof (intro conjI impI)
  assume "score_recipe_simple (normalized_set (ingredients_arg q)) q bad = Inl err
      \<or> get_ingredients bad = []"
  then have "score_recipe_simple (normalized_set (ingredients_arg q)) q bad = Inl err
    \<or> (\<exists>e. score_recipe_simple (normalized_set (ingredients_arg q)) q bad = Inl e)
    \<or> score_recipe_simple (normalized_set (ingredients_arg q)) q bad = Inr None"
    using score_recipe_simple_no_ingredients [of bad "normalized_set (ingredients_arg q)" q]
    by blast
  then show "get_recommendations_simple (xs @ bad # ys) q = get_recommendations_simple (xs @ ys) q"
    by (auto intro: get_recommendations_simple_skip)
next
  show "score_recipe_simple qi q (r\<lparr>recipe_id := i, name := n\<rparr>)
       = map_sum id (map_option (\<lambda>s. s\<lparr>recipe := r\<lparr>recipe_id := i, name := n\<rparr>\<rparr>))
           (score_recipe_simple qi q r)"
    by (rule score_recipe_simple_id_name)
next
  show "get_recommendations_entries (map Object xs) q = get_recommendations_simple xs q"
    by (rule get_recommendations_entries_Object)
next
  assume "Not_object \<in> set es"
  then show "get_recommendations_entries es q = []"
    by (simp add: get_recommendations_entries_def recommendations_entries_Not_object)
qed

theorem malformed_records_witness:
  "score_recipe_simple
      (normalized_set (ingredients_arg (rice_garlic\<lparr>dietary_restrictions := [''vegetarian'']\<rparr>)))
      (rice_garlic\<lparr>dietary_restrictions := [''vegetarian'']\<rparr>) recipe_1 = Inl AttributeError
   \<and> get_recommendations_simple ([] @ recipe_1 # [recipe_2])
        (rice_garlic\<lparr>dietary_restrictions := [''vegetarian'']\<rparr>)
       = get_recommendations_simple ([] @ [recipe_2])
           (rice_garlic\<lparr>dietary_restrictions := [''vegetarian'']\<rparr>)
   \<and> get_recommendations_simple ([] @ [recipe_2])
           (rice_garlic\<lparr>dietary_restrictions := [''vegetarian'']\<rparr>) \<noteq> []
   \<and> Not_object \<in> set [Object recipe_2, Not_object]
   \<and> get_recommendations_entries [Object recipe_2, Not_object]
         (rice_garlic\<lparr>dietary_restrictions := [''vegetarian'']\<rparr>) = []"
proof -
  let ?q = "rice_garlic\<lparr>dietary_restrictions := [''vegetarian'']\<rparr>"
  have h: "score_recipe_simple (normalized_set (ingredients_arg ?q)) ?q recipe_1 = Inl AttributeError"
    by code_simp
  have ne: "get_recommendations_simple ([] @ [recipe_2]) ?q \<noteq> []" by code_simp
  have m: "Not_object \<in> set [Object recipe_2, Not_object]" by simp
  note inst = malformed_records [where q = ?q and bad = recipe_1 and err = AttributeError
      and xs = "[]" and ys = "[recipe_2]" and es = "[Object recipe_2, Not_object]"]
  from inst h have a: "get_recommendations_simple ([] @ recipe_1 # [recipe_2]) ?q
       = get_recommendations_simple ([] @ [recipe_2]) ?q"
    by blast
  from inst m have b: "get_recommendations_entries [Object recipe_2, Not_object] ?q = []"
    by blast
  from h a ne m b show ?thesis by blast
qed

section \<open>C9: the query as a normalised set\<close>

lemma intersection_cong_right: "set b = set b' \<Longrightarrow> intersection a b = intersection a b'"
  by (simp add: intersection_def)

lemma difference_cong_right: "set b = set b' \<Longrightarrow> difference a b = difference a b'"
  by (simp add: difference_def)

lemma length_intersection_cong_left:
  "distinct a \<Longrightarrow> distinct a' \<Longrightarrow> set a = set a' \<Longrightarrow>
     length (intersection a b) = length (intersection a' b)"
  by (simp add: length_intersection)

lemma length_cong_set: "distinct a \<Longrightarrow> distinct a' \<Longrightarrow> set a = set a' \<Longrightarrow> length a = length a'"
  by (simp add: length_distinct_card)

lemma score_simple_cong:
  assumes "distinct qa" "distinct qb" "set qa = set qb"
  shows "score_simple qa r = score_simple qb r"
  unfolding score_simple_def recipe_copy_simple_def
    intersection_cong_right [OF assms(3)] difference_cong_right [OF assms(3)]
    length_intersection_cong_left [OF assms] length_cong_set [OF assms]
  by (rule refl)

lemma filtered_out_simple_ingredients:
  "filtered_out_simple (q\<lparr>ingredients_arg := a\<rparr>) r = filtered_out_simple q r"
  by (simp add: filtered_out_simple_def split: sum.splits)

lemma score_recipe_simple_cong:
  assumes "distinct qa" "distinct qb" "set qa = set qb"
  shows "score_recipe_simple qa (q\<lparr>ingredients_arg := a\<rparr>) r
           = score_recipe_simple qb (q\<lparr>ingredients_arg := b\<rparr>) r"
  by (simp add: score_recipe_simple_def filtered_out_simple_ingredients
        score_simple_cong [OF assms] split: sum.splits)

lemma recommendations_simple_cong:
  assumes "distinct qa" "distinct qb" "set qa = set qb"
  shows "recommendations_simple qa (q\<lparr>ingredients_arg := a\<rparr>) rs
           = recommendations_simple qb (q\<lparr>ingredients_arg := b\<rparr>) rs"
proof (induction rs)
  case Nil
  show ?case by simp
next
  case (Cons r rs)
  have "score_recipe_simple qa (q\<lparr>ingredients_arg := a\<rparr>) r
          = score_recipe_simple qb (q\<lparr>ingredients_arg := b\<rparr>) r"
    using assms by (rule score_recipe_simple_cong)
  with Cons show ?case by (simp split: sum.splits option.splits)
qed

lemma get_recommendations_simple_cong:
  assumes "set (normalized_set a) = set (normalized_set b)"
  shows "get_recommendations_simple rs (q\<lparr>ingredients_arg := a\<rparr>)
           = get_recommendations_simple rs (q\<lparr>ingredients_arg := b\<rparr>)"
proof -
  have "(a = []) = (normalized_set a = [])" "(b = []) = (normalized_set b = [])" by simp_all
  with assms have e: "(a = []) = (b = [])"
    by (metis set_empty)
  have "recommendations_simple (normalized_set a) (q\<lparr>ingredients_arg := a\<rparr>) rs
          = recommendations_simple (normalized_set b) (q\<lparr>ingredients_arg := b\<rparr>) rs"
    using distinct_normalized_set distinct_normalized_set assms
    by (rule recommendations_simple_cong)
  with e show ?thesis
    by (simp add: get_recommendations_simple_def Let_def)
qed

lemma distinct_py_set: "distinct (py_set xs)"
  by (simp add: py_set_def)

lemma score_engine_cong:
  assumes "set (map lower a) = set (map lower b)"
  shows "score_engine ml a r = score_engine ml b r"
proof -
  let ?qa = "py_set (map lower a)" and ?qb = "py_set (map lower b)"
  have d: "distinct ?qa" "distinct ?qb" by (rule distinct_py_set)+
  have s: "set ?qa = set ?qb" using assms by (simp add: py_set_def)
  have e: "(?qa \<noteq> []) = (?qb \<noteq> [])" using s by (metis set_empty)
  show ?thesis
    unfolding score_engine_def recipe_copy_engine_def Let_def
      intersection_cong_right [OF s] difference_cong_right [OF s]
      length_intersection_cong_left [OF d s] length_cong_set [OF d s] e
    by (rule refl)
qed

lemma filtered_out_engine_ingredients:
  "filtered_out_engine (q\<lparr>ingredients_arg := a\<rparr>) r = filtered_out_engine q r"
  by (simp add: filtered_out_engine_def)

lemma score_recipe_engine_cong:
  assumes "set (map lower a) = set (map lower b)"
  shows "score_recipe_engine sims all (q\<lparr>ingredients_arg := a\<rparr>) r
           = score_recipe_engine sims all (q\<lparr>ingredients_arg := b\<rparr>) r"
  by (simp add: score_recipe_engine_def filtered_out_engine_ingredients
        score_engine_cong [OF assms] split: sum.splits option.splits)

lemma recommendations_engine_cong:
  assumes "set (map lower a) = set (map lower b)"
  shows "recommendations_engine sims all (q\<lparr>ingredients_arg := a\<rparr>) cs
           = recommendations_engine sims all (q\<lparr>ingredients_arg := b\<rparr>) cs"
proof (induction cs)
  case Nil
  show ?case by simp
next
  case (Cons r cs)
  have "score_recipe_engine sims all (q\<lparr>ingredients_arg := a\<rparr>) r
          = score_recipe_engine sims all (q\<lparr>ingredients_arg := b\<rparr>) r"
    using assms by (rule score_recipe_engine_cong)
  with Cons show ?case by (simp split: sum.splits option.splits)
qed

lemma rank_engine_cong:
  assumes "set (map lower a) = set (map lower b)"
    and "similarity m (query_text (q\<lparr>ingredients_arg := a\<rparr>))
           = similarity m (query_text (q\<lparr>ingredients_arg := b\<rparr>))"
  shows "rank_engine e m (q\<lparr>ingredients_arg := a\<rparr>) = rank_engine e m (q\<lparr>ingredients_arg := b\<rparr>)"
proof -
  have "\<And>sims cs. recommendations_engine sims (recipes e) (q\<lparr>ingredients_arg := a\<rparr>) cs
          = recommendations_engine sims (recipes e) (q\<lparr>ingredients_arg := b\<rparr>) cs"
    using assms(1) by (rule recommendations_engine_cong)
  with assms(2) show ?thesis
    by (simp add: rank_engine_def Let_def split: sum.splits)
qed

lemma get_recommendations_engine_cong:
  assumes "set (map lower a) = set (map lower b)"
    and "\<forall>m. recipe_vectors e = Some m \<longrightarrow>
           similarity m (query_text (q\<lparr>ingredients_arg := a\<rparr>))
             = similarity m (query_text (q\<lparr>ingredients_arg := b\<rparr>))"
  shows "get_recommendations_engine e (q\<lparr>ingredients_arg := a\<rparr>)
           = get_recommendations_engine e (q\<lparr>ingredients_arg := b\<rparr>)"
proof (cases "recipe_vectors e")
  case None
  then show ?thesis by (simp add: get_recommendations_engine_def nothing_to_rank_def)
next
  case (Some m)
  with assms have "rank_engine e m (q\<lparr>ingredients_arg := a\<rparr>)
                     = rank_engine e m (q\<lparr>ingredients_arg := b\<rparr>)"
    by (intro rank_engine_cong) auto
  with Some show ?thesis
    by (simp add: get_recommendations_engine_def split: sum.splits bool.splits)
qed

text \<open>
  C9: two query ingredient lists that normalise (lower-case, trim) to the same set give
  identical result lists. \<^verbatim>\<open>SimpleRecipeRecommender\<close> builds the query set with
  \<^verbatim>\<open>ing.lower().strip()\<close>; \<^verbatim>\<open>RecipeRecommendationEngine\<close> builds it with \<^verbatim>\<open>ing.lower()\<close>
  alone. On the corpus of the one recipe of plain rice, the queries \<^verbatim>\<open>['rice']\<close> and
  \<^verbatim>\<open>[' rice']\<close>, which normalise to the same set and have the same similarity, get the score
  100 and nothing missing from the second engine for the one and the score 40 and the rice
  missing for the other; the first engine gives both the same result.
\<close>

theorem query_strip_engine:
  "set (normalized_set [''rice'']) = set (normalized_set ['' rice''])
   \<and> get_recommendations_engine engine_rice (rice_garlic\<lparr>ingredients_arg := [''rice'']\<rparr>)
       = Inr [\<lparr>recipe = rice_only, match_score = 100, ingredient_match_percentage = 100,
               missing_ingredients = [], substitution_suggestions = []\<rparr>]
   \<and> get_recommendations_engine engine_rice (rice_garlic\<lparr>ingredients_arg := ['' rice'']\<rparr>)
       = Inr [\<lparr>recipe = rice_only, match_score = 40, ingredient_match_percentage = 0,
               missing_ingredients = [''rice''], substitution_suggestions = []\<rparr>]
   \<and> get_recommendations_simple [rice_only] (rice_garlic\<lparr>ingredients_arg := [''rice'']\<rparr>)
       = get_recommendations_simple [rice_only] (rice_garlic\<lparr>ingredients_arg := ['' rice'']\<rparr>)
   \<and> get_recommendations_simple [rice_only] (rice_garlic\<lparr>ingredients_arg := ['' rice'']\<rparr>) \<noteq> []"
  by code_simp

text \<open>
  The invariance, for every corpus and query: \<^verbatim>\<open>SimpleRecipeRecommender.get_recommendations\<close>
  gives identical result lists for two query ingredient lists that normalise (lower-case,
  trim) to the same set. \<^verbatim>\<open>RecipeRecommendationEngine.get_recommendations\<close> does so when, in
  addition, the lower-cased names carry no surrounding whitespace and the vectoriser gives
  both query texts the same similarities.
\<close>

theorem query_normalization:
  assumes "set (normalized_set a) = set (normalized_set b)"
  shows "get_recommendations_simple rs (q\<lparr>ingredients_arg := a\<rparr>)
           = get_recommendations_simple rs (q\<lparr>ingredients_arg := b\<rparr>)
       \<and> ((\<forall>x\<in>set a \<union> set b. strip (lower x) = lower x)
            \<and> (\<forall>m. recipe_vectors e = Some m \<longrightarrow>
                  similarity m (query_text (q\<lparr>ingredients_arg := a\<rparr>))
                    = similarity m (query_text (q\<lparr>ingredients_arg := b\<rparr>))) \<longrightarrow>
           get_recommendations_engine e (q\<lparr>ingredients_arg := a\<rparr>)
             = get_recommendations_engine e (q\<lparr>ingredients_arg := b\<rparr>))"
proof (intro conjI impI)
  show "get_recommendations_simple rs (q\<lparr>ingredients_arg := a\<rparr>)
           = get_recommendations_simple rs (q\<lparr>ingredients_arg := b\<rparr>)"
    using assms by (rule get_recommendations_simple_cong)
next
  assume h: "(\<forall>x\<in>set a \<union> set b. strip (lower x) = lower x)
            \<and> (\<forall>m. recipe_vectors e = Some m \<longrightarrow>
                  similarity m (query_text (q\<lparr>ingredients_arg := a\<rparr>))
                    = similarity m (query_text (q\<lparr>ingredients_arg := b\<rparr>)))"
  then have "(\<lambda>i. strip (lower i)) ` set a = lower ` set a"
    and "(\<lambda>i. strip (lower i)) ` set b = lower ` set b"
    by (auto intro!: image_cong)
  with assms have "set (map lower a) = set (map lower b)"
    by (simp add: set_normalized_set)
  with h show "get_recommendations_engine e (q\<lparr>ingredients_arg := a\<rparr>)
             = get_recommendations_engine e (q\<lparr>ingredients_arg := b\<rparr>)"
    by (intro get_recommendations_engine_cong) blast+
qed

theorem query_normalization_witness:
  "set (normalized_set [''Rice'', ''rice '', ''garlic'']) = set (normalized_set [''garlic'', ''RICE''])
   \<and> get_recommendations_simple [recipe_1, recipe_2]
        (rice_garlic\<lparr>ingredients_arg := [''Rice'', ''rice '', ''garlic'']\<rparr>)
      = get_recommendations_simple [recipe_1, recipe_2]
          (rice_garlic\<lparr>ingredients_arg := [''garlic'', ''RICE'']\<rparr>)
   \<and> get_recommendations_simple [recipe_1, recipe_2]
          (rice_garlic\<lparr>ingredients_arg := [''garlic'', ''RICE'']\<rparr>) \<noteq> []
   \<and> set (normalized_set [''Rice'', ''rice'']) = set (normalized_set [''RICE''])
   \<and> get_recommendations_engine engine_rice (rice_garlic\<lparr>ingredients_arg := [''Rice'', ''rice'']\<rparr>)
      = get_recommendations_engine engine_rice (rice_garlic\<lparr>ingredients_arg := [''RICE'']\<rparr>)
   \<and> projr (get_recommendations_engine engine_rice (rice_garlic\<lparr>ingredients_arg := [''RICE'']\<rparr>))
      \<noteq> []"
proof -
  have h1: "set (normalized_set [''Rice'', ''rice '', ''garlic''])
              = set (normalized_set [''garlic'', ''RICE''])" by code_simp
  have h2: "set (normalized_set [''Rice'', ''rice'']) = set (normalized_set [''RICE''])"
    by code_simp
  have ne: "get_recommendations_simple [recipe_1, recipe_2]
          (rice_garlic\<lparr>ingredients_arg := [''garlic'', ''RICE'']\<rparr>) \<noteq> []" by code_simp
  have ne2: "projr (get_recommendations_engine engine_rice
               (rice_garlic\<lparr>ingredients_arg := [''RICE'']\<rparr>)) \<noteq> []" by code_simp
  have t: "\<forall>x\<in>set [''Rice'', ''rice''] \<union> set [''RICE'']. strip (lower x) = lower x"
    by code_simp
  have s1: "sublist ''rice'' (lower (query_text (rice_garlic\<lparr>ingredients_arg := [''Rice'', ''rice'']\<rparr>)))"
    by code_simp
  have s2: "sublist ''rice'' (lower (query_text (rice_garlic\<lparr>ingredients_arg := [''RICE'']\<rparr>)))"
    by code_simp
  have v: "\<forall>m. recipe_vectors engine_rice = Some m \<longrightarrow>
             similarity m (query_text (rice_garlic\<lparr>ingredients_arg := [''Rice'', ''rice'']\<rparr>))
               = similarity m (query_text (rice_garlic\<lparr>ingredients_arg := [''RICE'']\<rparr>))"
    using s1 s2 by (simp add: engine_rice_def single_term_def)
  from query_normalization [OF h1, of "[recipe_1, recipe_2]" rice_garlic]
  have a: "get_recommendations_simple [recipe_1, recipe_2]
        (rice_garlic\<lparr>ingredients_arg := [''Rice'', ''rice '', ''garlic'']\<rparr>)
      = get_recommendations_simple [recipe_1, recipe_2]
          (rice_garlic\<lparr>ingredients_arg := [''garlic'', ''RICE'']\<rparr>)"
    by blast
  from query_normalization [OF h2, of "[rice_only]" rice_garlic engine_rice] t v
  have b: "get_recommendations_engine engine_rice (rice_garlic\<lparr>ingredients_arg := [''Rice'', ''rice'']\<rparr>)
      = get_recommendations_engine engine_rice (rice_garlic\<lparr>ingredients_arg := [''RICE'']\<rparr>)"
    by blast
  from h1 a ne h2 b ne2 show ?thesis by blast
qed

section \<open>Further properties of the results\<close>

lemma set_difference: "set (difference a b) = set a - set b"
  by (auto simp: difference_def)

lemma score_simple_missing:
  "score_simple qi r = Inr (Some s) \<Longrightarrow> set (missing_ingredients s) \<inter> set qi = {}"
  by (auto simp: score_simple_def Let_def recipe_copy_simple_def set_difference
      split: if_splits sum.splits)

lemma score_engine_missing:
  "score_engine ml ings r = Inr s \<Longrightarrow> set (missing_ingredients s) \<inter> lower ` set ings = {}"
  by (auto simp: score_engine_def Let_def recipe_copy_engine_def set_difference py_set_def
      split: if_splits sum.splits)

text \<open>
  The set-difference invariant of the specification's testable properties: no result lists
  as missing an ingredient that the query holds, in the normalisation of the engine that
  returned it.
\<close>

theorem missing_not_in_query:
  "(\<forall>s\<in>set (get_recommendations_simple rs q).
      set (missing_ingredients s) \<inter> name_set (ingredients_arg q) = {})
   \<and> (get_recommendations_engine e q = Inr res \<longrightarrow>
        (\<forall>s\<in>set res. set (missing_ingredients s) \<inter> lower ` set (ingredients_arg q) = {}))"
proof (intro conjI ballI impI)
  fix s assume "s \<in> set (get_recommendations_simple rs q)"
  from in_get_recommendations_simple [OF this] obtain r where
    "score_recipe_simple (normalized_set (ingredients_arg q)) q r = Inr (Some s)" by blast
  then have "score_simple (normalized_set (ingredients_arg q)) r = Inr (Some s)"
    by (auto dest: score_recipe_simple_SomeD)
  from score_simple_missing [OF this]
  show "set (missing_ingredients s) \<inter> name_set (ingredients_arg q) = {}"
    by (simp add: set_normalized_name_set)
next
  fix s assume "get_recommendations_engine e q = Inr res" "s \<in> set res"
  from in_get_recommendations_engine [OF this] obtain m :: matrix and r where
    "score_recipe_engine (similarity m (query_text q)) (recipes e) q r = Inr (Some s)" by blast
  then obtain i where "score_engine (similarity m (query_text q) i) (ingredients_arg q) r = Inr s"
    by (auto dest: score_recipe_engine_SomeD)
  then show "set (missing_ingredients s) \<inter> lower ` set (ingredients_arg q) = {}"
    by (rule score_engine_missing)
qed

theorem missing_not_in_query_witness:
  "get_recommendations_simple [recipe_1] rice_garlic \<noteq> []
   \<and> missing_ingredients (hd (get_recommendations_simple [recipe_1] rice_garlic)) = [''chicken'']
   \<and> set (missing_ingredients (hd (get_recommendations_simple [recipe_1] rice_garlic)))
        \<inter> name_set (ingredients_arg rice_garlic) = {}"
proof -
  have ne: "get_recommendations_simple [recipe_1] rice_garlic \<noteq> []" by code_simp
  then have mem: "hd (get_recommendations_simple [recipe_1] rice_garlic)
                    \<in> set (get_recommendations_simple [recipe_1] rice_garlic)"
    by (rule hd_in_set)
  have m: "missing_ingredients (hd (get_recommendations_simple [recipe_1] rice_garlic)) = [''chicken'']"
    by code_simp
  from missing_not_in_query [of "[recipe_1]" rice_garlic] mem
  have "set (missing_ingredients (hd (get_recommendations_simple [recipe_1] rice_garlic)))
        \<inter> name_set (ingredients_arg rice_garlic) = {}"
    by blast
  with ne m show ?thesis by blast
qed

text \<open>With no restriction requested, neither dietary check excludes a recipe.\<close>

theorem no_restrictions_no_filtering:
  "matches_dietary_restrictions d [] = Inr True \<and> filter_by_dietary_restrictions rs [] = rs"
  by (simp add: filter_by_dietary_restrictions_def)

text \<open>
  The guard at the head of \<^verbatim>\<open>RecipeRecommendationEngine.get_recommendations\<close>: on a
  non-empty corpus whose matrix has another shape than (1, 1), taking the truth value of
  the matrix raises \<^verbatim>\<open>ValueError\<close>, whatever the query.
\<close>

theorem matrix_truth_value:
  "recipes e \<noteq> [] \<and> recipe_vectors e = Some m \<and> shape m \<noteq> (1, 1) \<longrightarrow>
     get_recommendations_engine e q = Inl ValueError"
  by (simp add: get_recommendations_engine_def nothing_to_rank_def matrix_bool_def)

theorem matrix_truth_value_witness:
  "recipes engine_12 \<noteq> []
   \<and> recipe_vectors engine_12
       = Some \<lparr> shape = (2, 15), nnz = 22, similarity = (\<lambda>text idx. 0) \<rparr>
   \<and> shape \<lparr> shape = (2, 15), nnz = 22, similarity = (\<lambda>text idx. 0 :: rat) \<rparr> \<noteq> (1, 1)
   \<and> get_recommendations_engine engine_12 rice_garlic = Inl ValueError"
proof -
  have a: "recipes engine_12 \<noteq> []" by (simp add: engine_12_def)
  have b: "recipe_vectors engine_12
       = Some \<lparr> shape = (2, 15), nnz = 22, similarity = (\<lambda>text idx. 0) \<rparr>"
    by (simp add: engine_12_def)
  have c: "shape \<lparr> shape = (2, 15), nnz = 22, similarity = (\<lambda>text idx. 0 :: rat) \<rparr> \<noteq> (1, 1)"
    by simp
  from matrix_truth_value [of engine_12 _ rice_garlic] a b c
  have "get_recommendations_engine engine_12 rice_garlic = Inl ValueError" by blast
  with a b c show ?thesis by blast
qed

end
